theory Spec2Isabelle
  imports Main
begin

text \<open>
  A shallow embedding of the Codex agent of the application: the thinking-level
  resolver, the extraction of fields from the upstream events, the session object with
  its configuration changes, the chat driver that turns upstream events into agent
  events, the reader of the credential file and the title generator; followed by the
  properties proved of them.
\<close>

section \<open>Strings of the source language\<close>

text \<open>
  A JavaScript string is modelled as a \<^typ>\<open>string\<close>, one \<^typ>\<open>char\<close> per code unit
  (code units above 255 are outside the model). \<open>includes_str\<close> and \<open>startsWith\<close> are
  \<open>String.prototype.includes\<close> and \<open>String.prototype.startsWith\<close>.
\<close>

fun startsWith :: "string \<Rightarrow> string \<Rightarrow> bool" where
  "startsWith s [] = True"
| "startsWith [] (p # ps) = False"
| "startsWith (c # cs) (p # ps) = (c = p \<and> startsWith cs ps)"

fun includes_str :: "string \<Rightarrow> string \<Rightarrow> bool" where
  "includes_str [] sub = (sub = [])"
| "includes_str (c # cs) sub = (startsWith (c # cs) sub \<or> includes_str cs sub)"

fun split_on :: "char \<Rightarrow> string \<Rightarrow> string list" where
  "split_on sep [] = [[]]"
| "split_on sep (c # cs) =
     (if c = sep then [] # split_on sep cs
      else (case split_on sep cs of
              [] \<Rightarrow> [[c]]
            | part # parts \<Rightarrow> (c # part) # parts))"

text \<open>
  \<open>toLowerCase\<close> on the code units of the model: the ASCII capitals and the Latin-1
  capitals (all of 0xC0 to 0xDE but the multiplication sign 0xD7) move up by 32.
\<close>

definition lower_char :: "char \<Rightarrow> char" where
  "lower_char c =
     (let n = (of_char c :: nat)
      in if (65 \<le> n \<and> n \<le> 90) \<or> (192 \<le> n \<and> n \<le> 222 \<and> n \<noteq> 215)
         then char_of (n + 32) else c)"

definition toLowerCase :: "string \<Rightarrow> string" where
  "toLowerCase s = map lower_char s"

definition replaceAll_none :: "char \<Rightarrow> string \<Rightarrow> string" where
  \<comment> \<open>\<open>s.replaceAll(c, '')\<close> for a one-character pattern\<close>
  "replaceAll_none c s = filter (\<lambda>x. x \<noteq> c) s"

text \<open>
  \<open>trim\<close> removes the white space and line terminators of the model's code units
  from both ends: tab, line feed, vertical tab, form feed, carriage return, space and
  the no-break space 0xA0.
\<close>

definition is_space :: "char \<Rightarrow> bool" where
  "is_space c = (let n = (of_char c :: nat) in (9 \<le> n \<and> n \<le> 13) \<or> n = 32 \<or> n = 160)"

definition trim :: "string \<Rightarrow> string" where
  "trim s = rev (dropWhile is_space (rev (dropWhile is_space s)))"

fun digits :: "nat \<Rightarrow> string" where
  "digits n = (if n < 10 then [char_of (48 + n)] else digits (n div 10) @ [char_of (48 + n mod 10)])"

declare digits.simps [simp del]

section \<open>Untyped values\<close>

text \<open>
  The upstream events are \<open>unknown\<close> in the source and are probed field by field. A
  value is undefined, null, a boolean, a number, a string or an object with its own
  properties in an association list (the first binding of a key is the property).
  Numbers are integers here; fractions, NaN and the infinities are outside the model,
  and so are the integers that a number does not hold exactly or that \<open>String\<close> prints
  with an exponent (those of magnitude \<open>10^21\<close> or more): \<open>toString\<close> below prints
  every digit.
\<close>

datatype jsval =
    JUndefined
  | JNull
  | JBool bool
  | JNum int
  | JStr string
  | JObj "(string \<times> jsval) list"

fun field :: "jsval \<Rightarrow> string \<Rightarrow> jsval" where
  \<comment> \<open>\<open>v.k\<close> on a value that is not undefined or null; a primitive has none of the
      properties the source reads\<close>
  "field (JObj kvs) k = (case map_of kvs k of None \<Rightarrow> JUndefined | Some v \<Rightarrow> v)"
| "field v k = JUndefined"

definition nullish :: "jsval \<Rightarrow> bool" where
  "nullish v = (v = JUndefined \<or> v = JNull)"

definition optprop :: "jsval \<Rightarrow> string \<Rightarrow> jsval" where
  \<comment> \<open>\<open>v?.k\<close>\<close>
  "optprop v k = (if nullish v then JUndefined else field v k)"

fun coalesce :: "jsval list \<Rightarrow> jsval" where
  \<comment> \<open>\<open>a ?? b ?? ... ?? z\<close>: the first operand that is not undefined or null, else the last\<close>
  "coalesce [] = JUndefined"
| "coalesce [v] = v"
| "coalesce (v # w # ws) = (if nullish v then coalesce (w # ws) else v)"

fun truthy :: "jsval \<Rightarrow> bool" where
  "truthy JUndefined = False"
| "truthy JNull = False"
| "truthy (JBool b) = b"
| "truthy (JNum n) = (n \<noteq> 0)"
| "truthy (JStr s) = (s \<noteq> [])"
| "truthy (JObj kvs) = True"

fun is_object :: "jsval \<Rightarrow> bool" where
  \<comment> \<open>\<open>!(!event || typeof event !== 'object')\<close>\<close>
  "is_object (JObj kvs) = True"
| "is_object v = False"

fun toString :: "jsval \<Rightarrow> string" where
  \<comment> \<open>\<open>String(v)\<close> and the conversion of a template literal\<close>
  "toString JUndefined = ''undefined''"
| "toString JNull = ''null''"
| "toString (JBool b) = (if b then ''true'' else ''false'')"
| "toString (JNum n) = (if n < 0 then CHR ''-'' # digits (nat (- n)) else digits (nat n))"
| "toString (JStr s) = s"
| "toString (JObj kvs) = ''[object Object]''"

datatype js_error = TypeError | ReferenceError | SyntaxError | IOError | UpstreamFailure

section \<open>Thinking levels (thinking-levels.ts)\<close>

datatype ThinkingLevel = Off | Think | Max | Low | Medium | High | XHigh

text \<open>
  \<open>normalizeThinkingLevelForCodex(level, modelId?)\<close>. The optional model id is a
  \<^typ>\<open>string option\<close>; \<open>!!modelId\<close> is false for an absent and for an empty id.
  The result is kept in the seven-valued type, as the strings are at run time.
\<close>

definition isMini :: "string option \<Rightarrow> bool" where
  "isMini modelId = (case modelId of None \<Rightarrow> False | Some m \<Rightarrow> m \<noteq> [] \<and> includes_str m ''codex-mini'')"

definition normalizeThinkingLevelForCodex :: "ThinkingLevel \<Rightarrow> string option \<Rightarrow> ThinkingLevel" where
  "normalizeThinkingLevelForCodex level modelId =
     (let normalized =
            (if level = Low \<or> level = Medium \<or> level = High \<or> level = XHigh then level
             else if level = Off then Low
             else if level = Think then Medium
             else High)
      in if isMini modelId then
           (if normalized = Low then Medium
            else if normalized = XHigh then High
            else normalized)
         else normalized)"

section \<open>Field extraction from upstream events (CodexAgent)\<close>

text \<open>
  Each extractor first rejects what is not an object
  (\<open>if (!event || typeof event !== 'object') return null\<close>) and then probes a fixed
  list of synonymous fields with \<open>??\<close>. A result \<open>null\<close> is \<^const>\<open>None\<close>.
\<close>

definition extractTextDelta :: "jsval \<Rightarrow> string option" where
  "extractTextDelta event =
     (if \<not> is_object event then None
      else let data = event;
               params = field data ''params'';
               delta = coalesce [field data ''delta'', optprop params ''delta''];
               item = coalesce [field data ''item'', optprop params ''item''];
               text = coalesce [optprop delta ''text'', optprop params ''text'',
                                field data ''text'', field data ''output_text'',
                                field data ''outputText'', optprop item ''text'',
                                optprop item ''content'']
           in (case text of JStr s \<Rightarrow> if length s > 0 then Some s else None | _ \<Rightarrow> None))"

definition extractTextComplete :: "jsval \<Rightarrow> string option" where
  "extractTextComplete event =
     (if \<not> is_object event then None
      else let data = event;
               params = field data ''params'';
               item = coalesce [field data ''item'', optprop params ''item''];
               text = coalesce [optprop params ''text'', field data ''text'',
                                field data ''output_text'', field data ''outputText'',
                                optprop item ''text'', optprop item ''content'']
           in (case text of JStr s \<Rightarrow> if length s > 0 then Some s else None | _ \<Rightarrow> None))"

record ToolRef =
  toolUseId :: jsval

record ToolInfo = ToolRef +
  toolName :: jsval
  input :: jsval

record ToolResultInfo = ToolRef +
  result :: string
  isError :: bool

definition extractToolInfo :: "jsval \<Rightarrow> ToolInfo option" where
  "extractToolInfo event =
     (if \<not> is_object event then None
      else let data = event;
               params = field data ''params'';
               item = coalesce [field data ''item'', optprop params ''item''];
               name = coalesce [field data ''tool_name'', field data ''toolName'',
                                optprop (field data ''tool'') ''name'', optprop item ''name'',
                                field data ''name''];
               useId = coalesce [field data ''tool_call_id'', field data ''toolUseId'',
                                 field data ''id'', optprop (field data ''tool'') ''id'',
                                 optprop item ''id'', optprop params ''itemId''];
               inp = coalesce [field data ''input'', field data ''arguments'',
                               optprop (field data ''tool'') ''input'', optprop item ''input'']
           in if \<not> truthy name \<or> \<not> truthy useId then None
              else Some \<lparr>toolUseId = useId, toolName = name, input = inp\<rparr>)"

definition extractParentToolUseId :: "jsval \<Rightarrow> jsval option" where
  \<comment> \<open>\<open>parent || null\<close>\<close>
  "extractParentToolUseId event =
     (if \<not> is_object event then None
      else let data = event;
               params = field data ''params'';
               item = coalesce [field data ''item'', optprop params ''item''];
               parent = coalesce [field data ''parent_tool_use_id'', field data ''parentToolUseId'',
                                  field data ''parent_id'', optprop params ''parent_item_id'',
                                  optprop params ''parentItemId'', optprop item ''parent_id'',
                                  optprop item ''parentId'']
           in if truthy parent then Some parent else None)"

fun string_of :: "jsval \<Rightarrow> string option" where
  \<comment> \<open>\<open>typeof v === 'string' ? v : undefined\<close>\<close>
  "string_of (JStr s) = Some s"
| "string_of v = None"

definition extractIntentDisplayName :: "jsval \<Rightarrow> jsval \<Rightarrow> jsval \<Rightarrow> string option \<times> string option" where
  \<comment> \<open>the three parameters are optional: an absent one is \<^const>\<open>JUndefined\<close>\<close>
  "extractIntentDisplayName inp event item =
     (let intent = coalesce [optprop inp ''_intent'', optprop event ''intent'',
                             optprop item ''intent'', optprop event ''tool_intent''];
          displayName = coalesce [optprop inp ''_displayName'', optprop event ''displayName'',
                                  optprop item ''_displayName'', optprop item ''displayName'']
      in (string_of intent, string_of displayName))"

definition extractEventType :: "jsval \<Rightarrow> string option" where
  "extractEventType event =
     (if \<not> is_object event then None
      else let data = event;
               ty = coalesce [field data ''type'', field data ''event'', field data ''method'']
           in string_of ty)"

definition isItemEvent :: "string \<Rightarrow> bool" where
  "isItemEvent ty = (includes_str ty ''item.'' \<or> includes_str ty ''item/'' \<or> includes_str ty ''item_'')"

definition getItemType :: "jsval \<Rightarrow> string option" where
  "getItemType event =
     (if \<not> is_object event then None
      else let data = event;
               params = field data ''params'';
               item = coalesce [field data ''item'', optprop params ''item''];
               itemType = coalesce [optprop item ''type'', field data ''item_type'',
                                    field data ''itemType'']
           in string_of itemType)"

text \<open>
  \<open>normalizeToolResult\<close>. The error flag is
  \<open>Boolean(data.is_error ?? data.isError ?? item?.status === 'failed' ?? item?.error ??
  (typeof exitCode === 'number' && exitCode !== 0))\<close>: \<open>===\<close> binds tighter than
  \<open>??\<close>, so the third operand of the chain is the boolean
  \<open>item?.status === 'failed'\<close>.
\<close>

fun is_number :: "jsval \<Rightarrow> bool" where
  "is_number (JNum n) = True"
| "is_number v = False"

definition normalizeToolResult :: "jsval \<Rightarrow> ToolResultInfo option" where
  "normalizeToolResult event =
     (if \<not> is_object event then None
      else let data = event;
               params = field data ''params'';
               item = coalesce [field data ''item'', optprop params ''item''];
               stderr = coalesce [field data ''stderr'', optprop params ''stderr'',
                                  optprop item ''stderr'', optprop item ''error''];
               exitCode = coalesce [field data ''exit_code'', field data ''exitCode'',
                                    optprop params ''exit_code'', optprop params ''exitCode'',
                                    optprop item ''exit_code'', optprop item ''exitCode''];
               res = coalesce [field data ''result'', field data ''output'',
                               optprop params ''output'', optprop params ''delta'',
                               optprop item ''output'', optprop item ''result'',
                               optprop item ''aggregatedOutput''];
               useId = coalesce [field data ''tool_call_id'', field data ''toolUseId'',
                                 field data ''id'', optprop item ''id'', optprop params ''itemId''];
               err = truthy (coalesce [field data ''is_error'', field data ''isError'',
                                       JBool (optprop item ''status'' = JStr ''failed''),
                                       optprop item ''error'',
                                       JBool (is_number exitCode \<and> exitCode \<noteq> JNum 0)])
           in if \<not> truthy useId \<or> res = JUndefined then None
              else let resultWithMeta =
                         (if truthy stderr
                          then toString res @ [CHR 0x0A, CHR 0x0A] @ ''[stderr]'' @ [CHR 0x0A] @ toString stderr
                          else toString res)
                   in Some \<lparr>toolUseId = useId, result = resultWithMeta, isError = err\<rparr>)"

definition mapCommandItemToTool :: "jsval \<Rightarrow> ToolInfo option" where
  "mapCommandItemToTool item =
     (let command = coalesce [field item ''command'', field item ''cmd'', field item ''shell'',
                              field item ''input''];
          ident = field item ''id''
      in if \<not> truthy ident then None
         else Some \<lparr>toolUseId = ident, toolName = JStr ''bash'',
                     input = JObj [(''command'', command)]\<rparr>)"

text \<open>
  \<open>normalizeMcpToolName(toolName, item?)\<close>, on a string \<open>toolName\<close>. An absent
  \<open>item\<close> is \<^const>\<open>JUndefined\<close>.
\<close>

definition mcp_name :: "string \<Rightarrow> string \<Rightarrow> string" where
  \<comment> \<open>the template \<open>`mcp__${a}__${b}`\<close>\<close>
  "mcp_name a b = ''mcp__'' @ a @ ''__'' @ b"

definition normalizeMcpToolName :: "string \<Rightarrow> jsval \<Rightarrow> string" where
  "normalizeMcpToolName name item =
     (if startsWith name ''mcp__'' then name
      else let sourceHint = coalesce [optprop item ''source'', optprop item ''provider'',
                                      optprop item ''mcp'', optprop item ''server'',
                                      optprop item ''client''];
               dotParts = split_on CHR ''.'' name
           in if length dotParts = 3 \<and> dotParts ! 0 = ''mcp''
              then mcp_name (dotParts ! 1) (dotParts ! 2)
              else if length dotParts = 2
              then mcp_name (dotParts ! 0) (dotParts ! 1)
              else let colonParts = split_on CHR '':'' name
                   in if length colonParts = 2
                      then mcp_name (colonParts ! 0) (colonParts ! 1)
                      else let slashParts = split_on CHR ''/'' name
                           in if length slashParts = 2
                              then mcp_name (slashParts ! 0) (slashParts ! 1)
                              else if truthy sourceHint
                              then mcp_name (toString sourceHint) name
                              else name)"

text \<open>
  \<open>mapMcpItemToTool\<close>. The tool name is cast to \<open>string\<close> without a check: a truthy
  name that is not a string has no \<open>startsWith\<close>, and the call raises a TypeError.
\<close>

definition mapMcpItemToTool :: "jsval \<Rightarrow> js_error + ToolInfo option" where
  "mapMcpItemToTool item =
     (let name = coalesce [field item ''tool_name'', field item ''toolName'', field item ''tool'',
                           field item ''name''];
          ident = field item ''id'';
          inp = coalesce [field item ''input'', field item ''arguments'']
      in if \<not> truthy name \<or> \<not> truthy ident then Inr None
         else (case name of
                 JStr s \<Rightarrow> Inr (Some \<lparr>toolUseId = ident,
                                        toolName = JStr (normalizeMcpToolName s item),
                                        input = inp\<rparr>)
               | _ \<Rightarrow> Inl TypeError))"

section \<open>The agent session (CodexAgent)\<close>

text \<open>
  The upstream SDK is an external collaborator, known by its interface only: a
  connection with \<open>startThread(options)\<close> and \<open>resumeThread(id, options)\<close>, each
  returning a thread handle with an optional id, \<open>run\<close> and optionally
  \<open>runStreamed\<close>. Both are fields of records here, so that every statement holds for
  whatever the SDK does. A run delivers a finite sequence of events; what
  \<open>runStreamed\<close> returns (\<open>streamed.events ?? streamed\<close>) is that sequence. The run
  options (registered MCP servers and the abort signal) are handed to the SDK as they
  are and are left out.
\<close>

record ThreadOptions =
  opt_model :: "string option"
  opt_workingDirectory :: "string option"
  skipGitRepoCheck :: bool
  modelReasoningEffort :: "ThinkingLevel option"

datatype RunEvents =
    NoEvents  \<comment> \<open>\<open>events\<close> is absent or falsy\<close>
  | AsyncEvents "jsval list"  \<comment> \<open>\<open>events[Symbol.asyncIterator]\<close> is set\<close>
  | SyncEvents "jsval list"  \<comment> \<open>an iterable without \<open>Symbol.asyncIterator\<close>\<close>
  | NotIterable  \<comment> \<open>truthy, neither of the two\<close>

record RunResult =
  run_value :: jsval  \<comment> \<open>what \<open>thread.run\<close> resolves to, its \<open>events\<close> apart\<close>
  run_events :: RunEvents  \<comment> \<open>its \<open>events\<close> property\<close>

record CodexThread =
  thread_id :: "string option"
  run :: "string \<Rightarrow> RunResult"
  runStreamed :: "(string \<Rightarrow> jsval list) option"

record Codex =
  startThread :: "ThreadOptions \<Rightarrow> CodexThread"
  resumeThread :: "string \<Rightarrow> ThreadOptions \<Rightarrow> CodexThread"

text \<open>
  The fields of the class that the modelled methods read or write.
  \<open>sdkSessionId\<close> is \<open>config.session?.sdkSessionId\<close>; \<open>sessionIdUpdates\<close> records the
  arguments of the calls of \<open>config.onSdkSessionIdUpdate\<close>, oldest first.
  \<open>toolParents\<close> is the \<open>Map\<close>, with keys compared as values: that is how a \<open>Map\<close>
  compares strings, numbers and booleans (two distinct objects of equal content, which
  a \<open>Map\<close> tells apart, are one key here).
\<close>

record CodexAgent =
  sdkSessionId :: "string option"
  codex :: "Codex option"
  thread :: "CodexThread option"
  model :: "string option"
  thinkingLevel :: ThinkingLevel
  ultrathinkOverride :: bool
  workingDirectory :: "string option"
  toolParents :: "jsval \<rightharpoonup> jsval"
  sessionIdUpdates :: "string list"

definition truthy_str :: "string option \<Rightarrow> bool" where
  \<comment> \<open>truthiness of a \<open>string | null | undefined\<close>\<close>
  "truthy_str s = (case s of None \<Rightarrow> False | Some x \<Rightarrow> x \<noteq> [])"

definition buildThreadOptions :: "CodexAgent \<Rightarrow> ThreadOptions" where
  \<comment> \<open>\<open>this.thinkingLevel\<close> is a non-empty string, so the last condition of the source
      always holds\<close>
  "buildThreadOptions a =
     \<lparr>opt_model = (if truthy_str (model a) then model a else None),
      opt_workingDirectory = (if truthy_str (workingDirectory a) then workingDirectory a else None),
      skipGitRepoCheck = True,
      modelReasoningEffort =
        (let level = (if ultrathinkOverride a then XHigh else thinkingLevel a)
         in Some (normalizeThinkingLevelForCodex level (model a)))\<rparr>"

definition known_thread_id :: "CodexAgent \<Rightarrow> string option" where
  \<comment> \<open>\<open>this.thread?.id\<close> when it is truthy\<close>
  "known_thread_id a =
     (case thread a of
        None \<Rightarrow> None
      | Some t \<Rightarrow> (case thread_id t of
                    None \<Rightarrow> None
                  | Some i \<Rightarrow> if i \<noteq> [] then Some i else None))"

definition setModel :: "string \<Rightarrow> CodexAgent \<Rightarrow> CodexAgent" where
  "setModel m a =
     (let a = a\<lparr>model := Some m\<rparr>
      in case (known_thread_id a, codex a) of
           (Some i, Some c) \<Rightarrow> a\<lparr>thread := Some (resumeThread c i (buildThreadOptions a))\<rparr>
         | _ \<Rightarrow> a\<lparr>thread := None\<rparr>)"

definition setThinkingLevel :: "ThinkingLevel \<Rightarrow> CodexAgent \<Rightarrow> CodexAgent" where
  "setThinkingLevel level a =
     (let a = a\<lparr>thinkingLevel := level\<rparr>
      in case (known_thread_id a, codex a) of
           (Some i, Some c) \<Rightarrow> a\<lparr>thread := Some (resumeThread c i (buildThreadOptions a))\<rparr>
         | _ \<Rightarrow> a\<lparr>thread := None\<rparr>)"

definition setUltrathinkOverride :: "bool \<Rightarrow> CodexAgent \<Rightarrow> CodexAgent" where
  \<comment> \<open>the source has no \<open>else\<close> branch here\<close>
  "setUltrathinkOverride enabled a =
     (let a = a\<lparr>ultrathinkOverride := enabled\<rparr>
      in case (known_thread_id a, codex a) of
           (Some i, Some c) \<Rightarrow> a\<lparr>thread := Some (resumeThread c i (buildThreadOptions a))\<rparr>
         | _ \<Rightarrow> a)"

text \<open>
  \<open>ensureCodex\<close> and \<open>ensureThread\<close>. Creating the connection (the dynamic import
  and the constructor) may fail; its outcome is the parameter \<open>sdk\<close>. The memoised
  promise only serves concurrent callers and has no counterpart in a sequential model.
\<close>

definition ensureCodex :: "(js_error + Codex) \<Rightarrow> CodexAgent \<Rightarrow> (js_error + Codex) \<times> CodexAgent" where
  "ensureCodex sdk a =
     (case codex a of
        Some c \<Rightarrow> (Inr c, a)
      | None \<Rightarrow>
          (case sdk of
             Inl e \<Rightarrow> (Inl e, a)
           | Inr c \<Rightarrow> (Inr c, a\<lparr>codex := Some c\<rparr>)))"

definition ensureThread :: "(js_error + Codex) \<Rightarrow> CodexAgent \<Rightarrow> (js_error + CodexThread) \<times> CodexAgent" where
  "ensureThread sdk a =
     (case thread a of
        Some t \<Rightarrow> (Inr t, a)
      | None \<Rightarrow>
          (case ensureCodex sdk a of
             (Inl e, a1) \<Rightarrow> (Inl e, a1)
           | (Inr c, a1) \<Rightarrow>
               let threadOptions = buildThreadOptions a1;
                   existingId = sdkSessionId a1;
                   t = (case existingId of
                          None \<Rightarrow> startThread c threadOptions
                        | Some i \<Rightarrow> if i \<noteq> [] then resumeThread c i threadOptions
                                    else startThread c threadOptions);
                   a2 = a1\<lparr>thread := Some t\<rparr>;
                   a3 = (case thread_id t of
                           Some i \<Rightarrow> if i \<noteq> [] then a2\<lparr>sessionIdUpdates := sessionIdUpdates a2 @ [i]\<rparr> else a2
                         | None \<Rightarrow> a2)
               in (Inr t, a3)))"

section \<open>The chat driver (CodexAgent.chat)\<close>

datatype AgentEvent =
    Info string
  | TextDelta string
  | TextComplete string
  | ToolStart jsval jsval jsval "string option" "string option" "jsval option"
      \<comment> \<open>toolName, toolUseId, input, intent, displayName, parentToolUseId\<close>
  | ToolResult jsval string bool  \<comment> \<open>toolUseId, result, isError\<close>
  | ParentUpdate jsval jsval  \<comment> \<open>toolUseId, parentToolUseId\<close>
  | Complete

text \<open>
  The generator is modelled by the state it threads: the agent, the local
  \<open>finalText\<close>, the events yielded so far (oldest first) and the error raised, if any.
  Once an error is raised nothing more runs. The upstream delivers its events without
  raising; the abort controller and the debug output do not change the sequence and
  are left out.
\<close>

record Turn =
  agent :: CodexAgent
  finalText :: string
  yielded :: "AgentEvent list"
  raised :: "js_error option"

definition yield :: "AgentEvent \<Rightarrow> Turn \<Rightarrow> Turn" where
  "yield ev t = t\<lparr>yielded := yielded t @ [ev]\<rparr>"

definition raise :: "js_error \<Rightarrow> Turn \<Rightarrow> Turn" where
  "raise e t = t\<lparr>raised := Some e\<rparr>"

definition setParent :: "jsval \<Rightarrow> jsval \<Rightarrow> Turn \<Rightarrow> Turn" where
  \<comment> \<open>\<open>this.toolParents.set(child, parent)\<close>\<close>
  "setParent child parent t =
     t\<lparr>agent := (agent t)\<lparr>toolParents := (toolParents (agent t))(child \<mapsto> parent)\<rparr>\<rparr>"

definition notifySessionId :: "string \<Rightarrow> Turn \<Rightarrow> Turn" where
  \<comment> \<open>\<open>this.config.onSdkSessionIdUpdate?.(threadId)\<close>\<close>
  "notifySessionId i t =
     t\<lparr>agent := (agent t)\<lparr>sessionIdUpdates := sessionIdUpdates (agent t) @ [i]\<rparr>\<rparr>"

fun forEach :: "(jsval \<Rightarrow> Turn \<Rightarrow> Turn) \<Rightarrow> jsval list \<Rightarrow> Turn \<Rightarrow> Turn" where
  "forEach body [] t = t"
| "forEach body (event # events) t =
     (let t' = body event t
      in if raised t' = None then forEach body events t' else t')"

definition normalizeItemType :: "string option \<Rightarrow> string option" where
  \<comment> \<open>\<open>itemType?.replaceAll('_', '')?.replaceAll('-', '')?.toLowerCase()\<close>\<close>
  "normalizeItemType itemType =
     map_option (\<lambda>s. toLowerCase (replaceAll_none CHR ''-'' (replaceAll_none CHR ''_'' s))) itemType"

definition emitToolStart :: "ToolInfo \<Rightarrow> jsval \<Rightarrow> jsval \<Rightarrow> jsval option \<Rightarrow> Turn \<Rightarrow> Turn" where
  \<comment> \<open>the block shared by the three tool-start rules: the intent fields, the
      unconditional \<open>toolParents.set\<close> when a parent id is present, the yield\<close>
  "emitToolStart info event item parentToolUseId t =
     (let fields = extractIntentDisplayName (input info) event item;
          t = (case parentToolUseId of
                 Some parent \<Rightarrow> setParent (toolUseId info) parent t
               | None \<Rightarrow> t)
      in yield (ToolStart (toolName info) (toolUseId info) (coalesce [input info, JObj []])
                  (fst fields) (snd fields) parentToolUseId) t)"

definition emitToolResult :: "ToolResultInfo \<Rightarrow> Turn \<Rightarrow> Turn" where
  "emitToolResult r t = yield (ToolResult (toolUseId r) (result r) (isError r)) t"

definition emitCompletedResult :: "ToolResultInfo \<Rightarrow> jsval option \<Rightarrow> Turn \<Rightarrow> Turn" where
  \<comment> \<open>the body of the tool-result rule: a \<open>parent_update\<close> first when a parent id is
      present and \<open>toolParents\<close> has no entry for the id\<close>
  "emitCompletedResult r parentToolUseId t =
     (let t = (case parentToolUseId of
                 Some parent \<Rightarrow>
                   if toolParents (agent t) (toolUseId r) = None
                   then yield (ParentUpdate (toolUseId r) parent) (setParent (toolUseId r) parent t)
                   else t
               | None \<Rightarrow> t)
      in emitToolResult r t)"

definition noteThreadStarted :: "string \<Rightarrow> jsval \<Rightarrow> Turn \<Rightarrow> Turn" where
  \<comment> \<open>the block \<open>if (type === 'thread.started') ...\<close> at the head of the loop body\<close>
  "noteThreadStarted ty event t =
     (if ty = ''thread.started''
      then (case field event ''thread_id'' of
              JStr threadId \<Rightarrow> if length threadId > 0 then notifySessionId threadId t else t
            | _ \<Rightarrow> t)
      else t)"

text \<open>The body of the loop over the streamed events, rule by rule in the source's order.\<close>

definition streamedEvent :: "jsval \<Rightarrow> Turn \<Rightarrow> Turn" where
  "streamedEvent event t =
     (let ty = (case extractEventType event of Some s \<Rightarrow> s | None \<Rightarrow> []);
          t = noteThreadStarted ty event t;
          textDelta = extractTextDelta event;
          textComplete = extractTextComplete event;
          toolInfo = extractToolInfo event;
          normalizedItemType = normalizeItemType (getItemType event);
          parentToolUseId = extractParentToolUseId event;
          item = coalesce [field event ''item'', optprop (field event ''params'') ''item''];
          toolResult = normalizeToolResult event
      in if textDelta \<noteq> None \<and> (includes_str ty ''delta'' \<or> normalizedItemType = Some ''agentmessage'')
         then (case textDelta of
                 Some d \<Rightarrow> yield (TextDelta d) (t\<lparr>finalText := finalText t @ d\<rparr>)
               | None \<Rightarrow> t)
         else if ty = ''item/commandExecution/outputDelta''
         then (case normalizeToolResult event of Some r \<Rightarrow> emitToolResult r t | None \<Rightarrow> t)
         else if ty = ''item/fileChange/outputDelta''
         then (case normalizeToolResult event of Some r \<Rightarrow> emitToolResult r t | None \<Rightarrow> t)
         else if isItemEvent ty \<and> normalizedItemType = Some ''commandexecution''
         then (if truthy item
               then (case mapCommandItemToTool item of
                       Some mapped \<Rightarrow> emitToolStart mapped event item parentToolUseId t
                     | None \<Rightarrow> t)
               else t)
         else if isItemEvent ty \<and> normalizedItemType = Some ''mcptoolcall''
         then (if truthy item
               then (case mapMcpItemToTool item of
                       Inl e \<Rightarrow> raise e t
                     | Inr (Some mapped) \<Rightarrow> emitToolStart mapped event item parentToolUseId t
                     | Inr None \<Rightarrow> t)
               else t)
         else if toolInfo \<noteq> None \<and> includes_str ty ''tool''
         then (case toolInfo of
                 Some info \<Rightarrow> emitToolStart info event JUndefined parentToolUseId t
               | None \<Rightarrow> t)
         else if toolResult \<noteq> None \<and> (includes_str ty ''completed'' \<or> ty = ''item/completed'')
         then (case toolResult of
                 Some r \<Rightarrow> emitCompletedResult r parentToolUseId t
               | None \<Rightarrow> t)
         else if textComplete \<noteq> None \<and> (includes_str ty ''completed'' \<or> normalizedItemType = Some ''agentmessage'')
         then (case textComplete of
                 Some c \<Rightarrow> yield (TextComplete c) (t\<lparr>finalText := c\<rparr>)
               | None \<Rightarrow> t)
         else t)"

text \<open>The two loops of the path without \<open>runStreamed\<close>.\<close>

definition asyncEvent :: "jsval \<Rightarrow> Turn \<Rightarrow> Turn" where
  "asyncEvent event t =
     (let ty = (case extractEventType event of Some s \<Rightarrow> s | None \<Rightarrow> []);
          textDelta = extractTextDelta event;
          textComplete = extractTextComplete event;
          toolInfo = extractToolInfo event;
          parentToolUseId = extractParentToolUseId event;
          toolResult = normalizeToolResult event
      in if textDelta \<noteq> None
         then (case textDelta of
                 Some d \<Rightarrow> yield (TextDelta d) (t\<lparr>finalText := finalText t @ d\<rparr>)
               | None \<Rightarrow> t)
         else if toolInfo \<noteq> None \<and> includes_str ty ''tool''
         then (case toolInfo of
                 Some info \<Rightarrow> emitToolStart info event JUndefined parentToolUseId t
               | None \<Rightarrow> t)
         else if toolResult \<noteq> None \<and> includes_str ty ''completed''
         then (case toolResult of
                 Some r \<Rightarrow> emitCompletedResult r parentToolUseId t
               | None \<Rightarrow> t)
         else if textComplete \<noteq> None
         then (case textComplete of
                 Some c \<Rightarrow> yield (TextComplete c) (t\<lparr>finalText := c\<rparr>)
               | None \<Rightarrow> t)
         else t)"

definition syncEvent :: "jsval \<Rightarrow> Turn \<Rightarrow> Turn" where
  "syncEvent event t =
     (case extractTextDelta event of
        Some d \<Rightarrow> yield (TextDelta d) (t\<lparr>finalText := finalText t @ d\<rparr>)
      | None \<Rightarrow> t)"

definition runNonStreamed :: "RunResult \<Rightarrow> Turn \<Rightarrow> Turn" where
  \<comment> \<open>the \<open>else\<close> block: \<open>runResult.events\<close> raises a TypeError on undefined and null\<close>
  "runNonStreamed runResult t =
     (let resultText = extractTextComplete (run_value runResult)
      in if nullish (run_value runResult) then raise TypeError t
         else let t = (case run_events runResult of
                         NoEvents \<Rightarrow> t
                       | AsyncEvents events \<Rightarrow> forEach asyncEvent events t
                       | SyncEvents events \<Rightarrow> forEach syncEvent events t
                       | NotIterable \<Rightarrow> raise TypeError t)
              in if raised t \<noteq> None then t
                 else (case resultText of
                         Some r \<Rightarrow> if length (finalText t) = 0 then t\<lparr>finalText := r\<rparr> else t
                       | None \<Rightarrow> t))"

text \<open>
  The end of \<open>chat\<close>, after the \<open>if\<close>/\<open>else\<close> over \<open>thread.runStreamed\<close>:
  \<^verbatim>\<open>
    if (finalText.length === 0 && resultText) { finalText = resultText; }
    if (finalText.length > 0) { yield { type: 'text_complete', text: finalText }; }
    yield { type: 'complete' };
  \<close>
  \<open>resultText\<close> is declared with \<open>const\<close> inside the \<open>else\<close> block and is not in
  scope here: when \<open>finalText\<close> is empty, \<open>&&\<close> evaluates the identifier, which raises
  a ReferenceError; when \<open>finalText\<close> is not empty, \<open>&&\<close> stops before it.
\<close>

definition finishTurn :: "Turn \<Rightarrow> Turn" where
  "finishTurn t =
     (if length (finalText t) = 0 then raise ReferenceError t
      else let t = (if length (finalText t) > 0 then yield (TextComplete (finalText t)) t else t)
           in yield Complete t)"

definition startTurn :: "'a list option \<Rightarrow> CodexAgent \<Rightarrow> Turn" where
  \<comment> \<open>the start of \<open>chat\<close>, up to the call of \<open>ensureThread\<close>\<close>
  "startTurn attachments a =
     (let t = \<lparr>agent = a, finalText = [], yielded = [], raised = None\<rparr>
      in case attachments of
           Some (x # xs) \<Rightarrow> yield (Info ''Codex SDK currently ignores file attachments.'') t
         | _ \<Rightarrow> t)"

definition runEvents :: "CodexThread \<Rightarrow> string \<Rightarrow> Turn \<Rightarrow> Turn" where
  \<comment> \<open>the \<open>if (thread.runStreamed) ... else ...\<close> of \<open>chat\<close>\<close>
  "runEvents th message t =
     (case runStreamed th of
        Some stream \<Rightarrow> forEach streamedEvent (stream message) t
      | None \<Rightarrow> runNonStreamed (run th message) t)"

definition chat :: "(js_error + Codex) \<Rightarrow> string \<Rightarrow> 'a list option \<Rightarrow> CodexAgent \<Rightarrow> Turn" where
  "chat sdk message attachments a =
     (let t = startTurn attachments a
      in case ensureThread sdk (agent t) of
           (Inl e, a') \<Rightarrow> raise e (t\<lparr>agent := a'\<rparr>)
         | (Inr th, a') \<Rightarrow>
             let t = runEvents th message (t\<lparr>agent := a'\<rparr>)
             in if raised t \<noteq> None then t else finishTurn t)"

text \<open>
  What the upstream delivers in a turn, for the statements below: the events of the
  stream, or of the event collection of the run result, and the text that the run
  result returns directly.
\<close>

definition upstreamEvents :: "CodexThread \<Rightarrow> string \<Rightarrow> jsval list" where
  "upstreamEvents th message =
     (case runStreamed th of
        Some stream \<Rightarrow> stream message
      | None \<Rightarrow> (case run_events (run th message) of
                  AsyncEvents events \<Rightarrow> events
                | SyncEvents events \<Rightarrow> events
                | _ \<Rightarrow> []))"

definition returnedText :: "CodexThread \<Rightarrow> string \<Rightarrow> string" where
  "returnedText th message =
     (case runStreamed th of
        Some stream \<Rightarrow> []
      | None \<Rightarrow> (case extractTextComplete (run_value (run th message)) of
                  Some r \<Rightarrow> r
                | None \<Rightarrow> []))"

fun isTextComplete :: "AgentEvent \<Rightarrow> bool" where
  "isTextComplete (TextComplete s) = True"
| "isTextComplete ev = False"

fun deltaText :: "AgentEvent list \<Rightarrow> string" where
  \<comment> \<open>the concatenation of the texts of the \<open>text_delta\<close> events\<close>
  "deltaText [] = []"
| "deltaText (TextDelta d # evs) = d @ deltaText evs"
| "deltaText (ev # evs) = deltaText evs"

section \<open>The credential file (codex-auth.ts)\<close>

text \<open>
  The state of the file system at \<open>~/.codex/auth.json\<close>: nothing there, something
  that cannot be read (a directory, no permission, a file removed after the existence
  test), or a file with its content. \<open>JSON.parse\<close> is a parameter: it returns a
  value or raises.
\<close>

datatype FileState = Missing | Unreadable | Content string

definition existsSync :: "FileState \<Rightarrow> bool" where
  "existsSync fs = (fs \<noteq> Missing)"

definition readFileSync :: "FileState \<Rightarrow> js_error + string" where
  "readFileSync fs = (case fs of Content raw \<Rightarrow> Inr raw | _ \<Rightarrow> Inl IOError)"

definition debug :: "js_error \<Rightarrow> unit" where
  \<comment> \<open>Modelled from the spec: \<open>debug\<close> of utils/debug.ts is not among the sources; the
      failure is "logged for diagnostics", and the call returns\<close>
  "debug e = ()"

definition readCodexAuthFile_try :: "(string \<Rightarrow> js_error + jsval) \<Rightarrow> FileState \<Rightarrow> js_error + jsval" where
  \<comment> \<open>the \<open>try\<close> block\<close>
  "readCodexAuthFile_try jsonParse fs =
     (if \<not> existsSync fs then Inr JNull
      else (case readFileSync fs of
              Inl e \<Rightarrow> Inl e
            | Inr raw \<Rightarrow> jsonParse raw))"

definition readCodexAuthFile :: "(string \<Rightarrow> js_error + jsval) \<Rightarrow> FileState \<Rightarrow> js_error + jsval" where
  \<comment> \<open>\<^const>\<open>Inl\<close> would be an error that reaches the caller\<close>
  "readCodexAuthFile jsonParse fs =
     (case readCodexAuthFile_try jsonParse fs of
        Inl e \<Rightarrow> (let u = debug e in Inr JNull)
      | Inr v \<Rightarrow> Inr v)"

section \<open>Title generation (title-generator.ts)\<close>

text \<open>
  The two model calls are parameters. \<open>codexRun prompt\<close> is everything between the
  import of the SDK and \<open>await thread.run(prompt)\<close>: the run result, or the error
  raised on the way. \<open>query prompt\<close> is the message stream of the agent SDK: its
  messages, or the error that ends it. \<open>getAuthType()\<close> is the parameter \<open>authType\<close>.
\<close>

datatype ContentBlock = TextBlock string | OtherBlock

datatype SDKMessage = AssistantMessage "ContentBlock list" | OtherMessage

fun join :: "string \<Rightarrow> string list \<Rightarrow> string" where
  "join sep [] = []"
| "join sep [x] = x"
| "join sep (x # y # ys) = x @ sep @ join sep (y # ys)"

definition generateTitleWithCodex_try :: "(string \<Rightarrow> js_error + jsval) \<Rightarrow> string \<Rightarrow> js_error + string option" where
  \<comment> \<open>\<open>(result?.finalResponse ?? '').trim()\<close> raises a TypeError when the response is
      not a string\<close>
  "generateTitleWithCodex_try codexRun prompt =
     (case codexRun prompt of
        Inl e \<Rightarrow> Inl e
      | Inr res \<Rightarrow>
          (case coalesce [optprop res ''finalResponse'', JStr []] of
             JStr s \<Rightarrow>
               (let trimmed = trim s
                in if trimmed \<noteq> [] \<and> length trimmed > 0 \<and> length trimmed < 100
                   then Inr (Some trimmed)
                   else Inr None)
           | _ \<Rightarrow> Inl TypeError))"

definition generateTitleWithCodex :: "(string \<Rightarrow> js_error + jsval) \<Rightarrow> string \<Rightarrow> string option" where
  "generateTitleWithCodex codexRun prompt =
     (case generateTitleWithCodex_try codexRun prompt of
        Inl e \<Rightarrow> None
      | Inr r \<Rightarrow> r)"

fun addBlocks :: "string \<Rightarrow> ContentBlock list \<Rightarrow> string" where
  \<comment> \<open>the inner loop: \<open>if (block.type === 'text') title += block.text\<close>\<close>
  "addBlocks title [] = title"
| "addBlocks title (TextBlock text # blocks) = addBlocks (title @ text) blocks"
| "addBlocks title (OtherBlock # blocks) = addBlocks title blocks"

fun addMessages :: "string \<Rightarrow> SDKMessage list \<Rightarrow> string" where
  \<comment> \<open>the outer loop: \<open>if (message.type === 'assistant') ...\<close>\<close>
  "addMessages title [] = title"
| "addMessages title (AssistantMessage content # messages) = addMessages (addBlocks title content) messages"
| "addMessages title (OtherMessage # messages) = addMessages title messages"

definition titleFromQuery :: "(string \<Rightarrow> js_error + SDKMessage list) \<Rightarrow> string \<Rightarrow> js_error + string option" where
  \<comment> \<open>the part that both exported functions share word for word, from
      \<open>let title = ''\<close> to \<open>return null\<close>\<close>
  "titleFromQuery query prompt =
     (case query prompt of
        Inl e \<Rightarrow> Inl e
      | Inr messages \<Rightarrow>
          (let title = addMessages [] messages;
               trimmed = trim title
           in if trimmed \<noteq> [] \<and> length trimmed > 0 \<and> length trimmed < 100
              then Inr (Some trimmed)
              else Inr None))"

definition sessionTitlePrompt :: "string \<Rightarrow> string" where
  \<open>sessionTitlePrompt userMessage =
     (let userSnippet = take 500 userMessage
      in join [CHR 0x0A]
           [''What is the user trying to do? Reply with ONLY a short task description (2-5 words).'',
            ''Start with a verb. Use plain text only - no markdown.'',
            ''Examples: "Fix authentication bug", "Add dark mode", "Refactor API layer", "Explain codebase structure"'',
            [],
            ''User: '' @ userSnippet,
            [],
            ''Task:''])\<close>

definition generateSessionTitle ::
  "string \<Rightarrow> (string \<Rightarrow> js_error + jsval) \<Rightarrow> (string \<Rightarrow> js_error + SDKMessage list) \<Rightarrow> string \<Rightarrow> string option" where
  "generateSessionTitle authType codexRun query userMessage =
     (let prompt = sessionTitlePrompt userMessage
      in if authType = ''codex_oauth'' then generateTitleWithCodex codexRun prompt
         else (case titleFromQuery query prompt of
                 Inl e \<Rightarrow> None
               | Inr r \<Rightarrow> r))"

definition regeneratePrompt :: "string list \<Rightarrow> string \<Rightarrow> string" where
  \<open>regeneratePrompt recentUserMessages lastAssistantResponse =
     (let userContext = join [CHR 0x0A, CHR 0x0A] (map (take 300) recentUserMessages);
          assistantSnippet = take 500 lastAssistantResponse
      in join [CHR 0x0A]
           [''Based on these recent messages, what is the current focus of this conversation?'',
            ''Reply with ONLY a short task description (2-5 words).'',
            ''Start with a verb. Use plain text only - no markdown.'',
            ''Examples: "Fix authentication bug", "Add dark mode", "Refactor API layer", "Explain codebase structure"'',
            [],
            ''Recent user messages:'',
            userContext,
            [],
            ''Latest assistant response:'',
            assistantSnippet,
            [],
            ''Current focus:''])\<close>

definition regenerateSessionTitle ::
  "string \<Rightarrow> (string \<Rightarrow> js_error + jsval) \<Rightarrow> (string \<Rightarrow> js_error + SDKMessage list) \<Rightarrow> string list \<Rightarrow> string \<Rightarrow> string option" where
  "regenerateSessionTitle authType codexRun query recentUserMessages lastAssistantResponse =
     (let prompt = regeneratePrompt recentUserMessages lastAssistantResponse
      in if authType = ''codex_oauth'' then generateTitleWithCodex codexRun prompt
         else (case titleFromQuery query prompt of
                 Inl e \<Rightarrow> None
               | Inr r \<Rightarrow> r))"

text \<open>
  The model output of each path, for the statements below: the final response of the
  run, and the text blocks of the assistant messages in order.
\<close>

definition codexOutput :: "(string \<Rightarrow> js_error + jsval) \<Rightarrow> string \<Rightarrow> string option" where
  "codexOutput codexRun prompt =
     (case codexRun prompt of
        Inl e \<Rightarrow> None
      | Inr res \<Rightarrow> string_of (coalesce [optprop res ''finalResponse'', JStr []]))"

fun blockText :: "ContentBlock \<Rightarrow> string" where
  "blockText (TextBlock text) = text"
| "blockText OtherBlock = []"

fun messageText :: "SDKMessage \<Rightarrow> string" where
  "messageText (AssistantMessage content) = concat (map blockText content)"
| "messageText OtherMessage = []"

definition queryOutput :: "(string \<Rightarrow> js_error + SDKMessage list) \<Rightarrow> string \<Rightarrow> string option" where
  "queryOutput query prompt =
     (case query prompt of
        Inl e \<Rightarrow> None
      | Inr messages \<Rightarrow> Some (concat (map messageText messages)))"

definition titleOutput ::
  "string \<Rightarrow> (string \<Rightarrow> js_error + jsval) \<Rightarrow> (string \<Rightarrow> js_error + SDKMessage list) \<Rightarrow> string \<Rightarrow> string option" where
  "titleOutput authType codexRun query prompt =
     (if authType = ''codex_oauth'' then codexOutput codexRun prompt else queryOutput query prompt)"

section \<open>Inputs of the concrete evaluations\<close>

text \<open>
  A thread that streams given events, a thread without \<open>runStreamed\<close> whose \<open>run\<close>
  returns a given result, an agent that has a thread cached, a connection that cannot
  be created, and a connection whose threads stream nothing. The events are of the
  shapes that the loop reads: a completed item with its text, and a tool call with its
  parent.
\<close>

definition streamingThread :: "jsval list \<Rightarrow> CodexThread" where
  "streamingThread events =
     \<lparr>thread_id = None,
      run = (\<lambda>message. \<lparr>run_value = JObj [], run_events = NoEvents\<rparr>),
      runStreamed = Some (\<lambda>message. events)\<rparr>"

definition plainThread :: "RunResult \<Rightarrow> CodexThread" where
  "plainThread runResult =
     \<lparr>thread_id = None, run = (\<lambda>message. runResult), runStreamed = None\<rparr>"

definition agentWithThread :: "CodexThread \<Rightarrow> CodexAgent" where
  "agentWithThread th =
     \<lparr>sdkSessionId = None, codex = None, thread = Some th, model = None,
      thinkingLevel = Think, ultrathinkOverride = False, workingDirectory = None,
      toolParents = Map.empty, sessionIdUpdates = []\<rparr>"

definition noSdk :: "js_error + Codex" where
  "noSdk = Inl UpstreamFailure"

definition connectedCodex :: Codex where
  "connectedCodex =
     \<lparr>startThread = (\<lambda>options. streamingThread []),
      resumeThread = (\<lambda>i options. (streamingThread [])\<lparr>thread_id := Some i\<rparr>)\<rparr>"

definition completedItem :: "string \<Rightarrow> string \<Rightarrow> string \<Rightarrow> jsval" where
  \<comment> \<open>\<open>{type: 'item.completed', item: {id, type, text}}\<close>\<close>
  "completedItem i itemType s =
     JObj [(''type'', JStr ''item.completed''),
           (''item'', JObj [(''id'', JStr i), (''type'', JStr itemType), (''text'', JStr s)])]"

definition toolCallEvent :: "string \<Rightarrow> string \<Rightarrow> jsval" where
  \<comment> \<open>\<open>{type: 'tool.call', tool_name: 'read', id, parent_id}\<close>\<close>
  "toolCallEvent i parent =
     JObj [(''type'', JStr ''tool.call''), (''tool_name'', JStr ''read''), (''id'', JStr i),
           (''parent_id'', JStr parent)]"

section \<open>Invariants of the event loops\<close>

text \<open>
  Whatever rule fires, a loop body does one of seven things to the turn. The
  invariants below are preserved by each of them.
\<close>

inductive action :: "Turn \<Rightarrow> Turn \<Rightarrow> bool" where
  keep: "action t t"
| delta: "action t (yield (TextDelta d) (t\<lparr>finalText := finalText t @ d\<rparr>))"
| final: "action t (yield (TextComplete c) (t\<lparr>finalText := c\<rparr>))"
| start: "action t (emitToolStart info event item parent t)"
| res: "action t (emitToolResult r t)"
| completed: "action t (emitCompletedResult r parent t)"
| fail: "action t (raise e t)"

definition tracked :: "Turn \<Rightarrow> bool" where
  \<comment> \<open>as long as no \<open>text_complete\<close> was yielded, \<open>finalText\<close> is the text of the deltas\<close>
  "tracked t =
     (if filter isTextComplete (yielded t) = [] then finalText t = deltaText (yielded t) else True)"

definition parentKept :: "AgentEvent list \<Rightarrow> jsval \<Rightarrow> jsval \<Rightarrow> Turn \<Rightarrow> bool" where
  \<comment> \<open>since the point where the events \<open>base\<close> had been yielded and the child \<open>c\<close> was
      mapped to \<open>p\<close>: \<open>c\<close> is still mapped, to \<open>p\<close> or to the parent of a later
      \<open>tool_start\<close> for \<open>c\<close>, and no later \<open>parent_update\<close> is for \<open>c\<close>\<close>
  "parentKept base c p t =
     (\<exists>later. yielded t = base @ later
        \<and> (\<exists>q. toolParents (agent t) c = Some q
               \<and> (q = p \<or> (\<exists>n inp i d. ToolStart n c inp i d (Some q) \<in> set later)))
        \<and> (\<forall>q. ParentUpdate c q \<notin> set later))"

section \<open>Evaluation of the concrete inputs\<close>

lemmas js_defs = optprop_def nullish_def

lemmas extract_defs = extractEventType_def extractTextDelta_def extractTextComplete_def
  extractToolInfo_def extractParentToolUseId_def getItemType_def normalizeToolResult_def
  extractIntentDisplayName_def normalizeItemType_def isItemEvent_def toLowerCase_def
  lower_char_def replaceAll_none_def

lemmas chat_defs = chat_def startTurn_def ensureThread_def runEvents_def runNonStreamed_def
  finishTurn_def streamedEvent_def asyncEvent_def syncEvent_def noteThreadStarted_def
  emitToolStart_def emitToolResult_def emitCompletedResult_def yield_def raise_def setParent_def
  agentWithThread_def streamingThread_def plainThread_def noSdk_def completedItem_def
  toolCallEvent_def Let_def

section \<open>Tool results\<close>

text \<open>
  Claim C1. The claim takes \<open>{id: "t1", exit_code: 1, result: "out", stderr: "err"}\<close>
  to an error-flagged result. On this input \<open>normalizeToolResult\<close> returns the text
  \<open>out\<close>, an empty line, \<open>[stderr]\<close> and \<open>err\<close> in that order, with the error flag
  not set: the operand \<open>item?.status === 'failed'\<close> of the \<open>??\<close> chain is a boolean,
  never undefined or null, so the error field and the exit code after it are never
  consulted.
\<close>

theorem normalizeToolResult_exit_code_unflagged:
  "normalizeToolResult
     (JObj [(''id'', JStr ''t1''), (''exit_code'', JNum 1), (''result'', JStr ''out''),
            (''stderr'', JStr ''err'')])
   = Some \<lparr>toolUseId = JStr ''t1'',
            result = ''out'' @ [CHR 0x0A, CHR 0x0A] @ ''[stderr]'' @ [CHR 0x0A] @ ''err'',
            isError = False\<rparr>"
  by (simp add: normalizeToolResult_def js_defs)

theorem normalizeToolResult_exit_code_unflagged_witness:
  "map_option isError
     (normalizeToolResult
        (JObj [(''id'', JStr ''t1''), (''exit_code'', JNum 1), (''result'', JStr ''out''),
               (''stderr'', JStr ''err'')]))
   = Some False"
  using normalizeToolResult_exit_code_unflagged by simp

section \<open>MCP tool names\<close>

lemma startsWith_mcp_name: "startsWith (mcp_name a b) ''mcp__''"
  by (simp add: mcp_name_def)

lemma split_on_none: "sep \<notin> set s \<Longrightarrow> split_on sep s = [s]"
  by (induction s) auto

lemma split_on_append:
  "sep \<notin> set a \<Longrightarrow> split_on sep (a @ sep # r) = a # split_on sep r"
  by (induction a) auto

lemma split_on_two:
  "sep \<notin> set a \<Longrightarrow> sep \<notin> set b \<Longrightarrow> split_on sep (a @ sep # b) = [a, b]"
  by (simp add: split_on_append split_on_none)

lemma mcp_dot_shape:
  assumes "CHR ''.'' \<notin> set src" "CHR ''.'' \<notin> set tool"
  shows "normalizeMcpToolName (''mcp.'' @ src @ ''.'' @ tool) item = ''mcp__'' @ src @ ''__'' @ tool"
proof -
  have "split_on CHR ''.'' (''mcp.'' @ src @ ''.'' @ tool) = [''mcp'', src, tool]"
    using split_on_append [of "CHR ''.''" "''mcp''" "src @ ''.'' @ tool"]
      split_on_two [OF assms] by simp
  then show ?thesis
    by (simp add: normalizeMcpToolName_def mcp_name_def Let_def)
qed

lemma dot_shape:
  assumes "CHR ''.'' \<notin> set src" "CHR ''.'' \<notin> set tool"
      and "\<not> startsWith (src @ ''.'' @ tool) ''mcp__''"
  shows "normalizeMcpToolName (src @ ''.'' @ tool) item = ''mcp__'' @ src @ ''__'' @ tool"
proof -
  have "split_on CHR ''.'' (src @ ''.'' @ tool) = [src, tool]"
    using split_on_two [OF assms(1,2)] by simp
  with assms(3) show ?thesis
    by (simp add: normalizeMcpToolName_def mcp_name_def Let_def)
qed

lemma colon_shape:
  assumes "CHR ''.'' \<notin> set src" "CHR ''.'' \<notin> set tool"
      and "CHR '':'' \<notin> set src" "CHR '':'' \<notin> set tool"
      and "\<not> startsWith (src @ '':'' @ tool) ''mcp__''"
  shows "normalizeMcpToolName (src @ '':'' @ tool) item = ''mcp__'' @ src @ ''__'' @ tool"
proof -
  have d: "split_on CHR ''.'' (src @ '':'' @ tool) = [src @ '':'' @ tool]"
    using assms(1,2) by (simp add: split_on_none)
  have c: "split_on CHR '':'' (src @ '':'' @ tool) = [src, tool]"
    using split_on_two [OF assms(3,4)] by simp
  from assms(5) d c show ?thesis
    by (simp add: normalizeMcpToolName_def mcp_name_def Let_def)
qed

lemma slash_shape:
  assumes "CHR ''.'' \<notin> set src" "CHR ''.'' \<notin> set tool"
      and "CHR '':'' \<notin> set src" "CHR '':'' \<notin> set tool"
      and "CHR ''/'' \<notin> set src" "CHR ''/'' \<notin> set tool"
      and "\<not> startsWith (src @ ''/'' @ tool) ''mcp__''"
  shows "normalizeMcpToolName (src @ ''/'' @ tool) item = ''mcp__'' @ src @ ''__'' @ tool"
proof -
  have d: "split_on CHR ''.'' (src @ ''/'' @ tool) = [src @ ''/'' @ tool]"
    using assms(1,2) by (simp add: split_on_none)
  have c: "split_on CHR '':'' (src @ ''/'' @ tool) = [src @ ''/'' @ tool]"
    using assms(3,4) by (simp add: split_on_none)
  have s: "split_on CHR ''/'' (src @ ''/'' @ tool) = [src, tool]"
    using split_on_two [OF assms(5,6)] by simp
  from assms(7) d c s show ?thesis
    by (simp add: normalizeMcpToolName_def mcp_name_def Let_def)
qed

lemma bare_shape:
  assumes "CHR ''.'' \<notin> set bare" "CHR '':'' \<notin> set bare" "CHR ''/'' \<notin> set bare"
      and "\<not> startsWith bare ''mcp__''"
  shows "(coalesce [optprop item ''source'', optprop item ''provider'', optprop item ''mcp'',
                    optprop item ''server'', optprop item ''client''] = JStr h \<and> h \<noteq> []
            \<longrightarrow> normalizeMcpToolName bare item = ''mcp__'' @ h @ ''__'' @ bare)
       \<and> (\<not> truthy (coalesce [optprop item ''source'', optprop item ''provider'',
                                optprop item ''mcp'', optprop item ''server'',
                                optprop item ''client''])
            \<longrightarrow> normalizeMcpToolName bare item = bare)"
  using assms
  by (simp add: normalizeMcpToolName_def mcp_name_def Let_def split_on_none)

text \<open>
  Claim C7. \<open>normalizeMcpToolName\<close> returns \<open>mcp__a__b\<close> for \<open>mcp__a__b\<close>,
  \<open>mcp.a.b\<close>, \<open>a.b\<close>, \<open>a:b\<close> and \<open>a/b\<close>, whatever the item; it returns every name
  that starts with \<open>mcp__\<close> unchanged; and it is idempotent on every name. The listed
  shapes are rewritten for every source and tool, not only for \<open>a\<close> and \<open>b\<close>:
  \<open>mcp.<source>.<tool>\<close> and \<open><source>.<tool>\<close> with no further dot,
  \<open><source>:<tool>\<close> with no dot and no further colon, and \<open><source>/<tool>\<close> with
  no dot, no colon and no further slash all become \<open>mcp__<source>__<tool>\<close> (the
  last three unless the name already starts with \<open>mcp__\<close>). A name of none of these
  shapes becomes \<open>mcp__<hint>__<name>\<close> when the item carries a non-empty source hint
  string, and is returned unchanged when it carries no truthy hint.
\<close>

theorem normalizeMcpToolName_canonical:
  "normalizeMcpToolName ''mcp__a__b'' item = ''mcp__a__b''
   \<and> normalizeMcpToolName ''mcp.a.b'' item = ''mcp__a__b''
   \<and> normalizeMcpToolName ''a.b'' item = ''mcp__a__b''
   \<and> normalizeMcpToolName ''a:b'' item = ''mcp__a__b''
   \<and> normalizeMcpToolName ''a/b'' item = ''mcp__a__b''
   \<and> (startsWith name ''mcp__'' \<longrightarrow> normalizeMcpToolName name item = name)
   \<and> normalizeMcpToolName (normalizeMcpToolName name item) item = normalizeMcpToolName name item
   \<and> (CHR ''.'' \<notin> set src \<and> CHR ''.'' \<notin> set tool
        \<longrightarrow> normalizeMcpToolName (''mcp.'' @ src @ ''.'' @ tool) item
              = ''mcp__'' @ src @ ''__'' @ tool)
   \<and> (CHR ''.'' \<notin> set src \<and> CHR ''.'' \<notin> set tool
        \<and> \<not> startsWith (src @ ''.'' @ tool) ''mcp__''
        \<longrightarrow> normalizeMcpToolName (src @ ''.'' @ tool) item = ''mcp__'' @ src @ ''__'' @ tool)
   \<and> (CHR ''.'' \<notin> set src \<and> CHR ''.'' \<notin> set tool
        \<and> CHR '':'' \<notin> set src \<and> CHR '':'' \<notin> set tool
        \<and> \<not> startsWith (src @ '':'' @ tool) ''mcp__''
        \<longrightarrow> normalizeMcpToolName (src @ '':'' @ tool) item = ''mcp__'' @ src @ ''__'' @ tool)
   \<and> (CHR ''.'' \<notin> set src \<and> CHR ''.'' \<notin> set tool
        \<and> CHR '':'' \<notin> set src \<and> CHR '':'' \<notin> set tool
        \<and> CHR ''/'' \<notin> set src \<and> CHR ''/'' \<notin> set tool
        \<and> \<not> startsWith (src @ ''/'' @ tool) ''mcp__''
        \<longrightarrow> normalizeMcpToolName (src @ ''/'' @ tool) item = ''mcp__'' @ src @ ''__'' @ tool)
   \<and> (CHR ''.'' \<notin> set bare \<and> CHR '':'' \<notin> set bare \<and> CHR ''/'' \<notin> set bare
        \<and> \<not> startsWith bare ''mcp__''
        \<and> coalesce [optprop item ''source'', optprop item ''provider'', optprop item ''mcp'',
                     optprop item ''server'', optprop item ''client''] = JStr h \<and> h \<noteq> []
        \<longrightarrow> normalizeMcpToolName bare item = ''mcp__'' @ h @ ''__'' @ bare)
   \<and> (CHR ''.'' \<notin> set bare \<and> CHR '':'' \<notin> set bare \<and> CHR ''/'' \<notin> set bare
        \<and> \<not> startsWith bare ''mcp__''
        \<and> \<not> truthy (coalesce [optprop item ''source'', optprop item ''provider'',
                                 optprop item ''mcp'', optprop item ''server'',
                                 optprop item ''client''])
        \<longrightarrow> normalizeMcpToolName bare item = bare)"
proof -
  have idem: "normalizeMcpToolName (normalizeMcpToolName name item) item
                = normalizeMcpToolName name item"
    unfolding normalizeMcpToolName_def Let_def by (simp add: startsWith_mcp_name)
  have canon: "startsWith name ''mcp__'' \<longrightarrow> normalizeMcpToolName name item = name"
    by (simp add: normalizeMcpToolName_def)
  have shapes:
    "normalizeMcpToolName ''mcp__a__b'' item = ''mcp__a__b''"
    "normalizeMcpToolName ''mcp.a.b'' item = ''mcp__a__b''"
    "normalizeMcpToolName ''a.b'' item = ''mcp__a__b''"
    "normalizeMcpToolName ''a:b'' item = ''mcp__a__b''"
    "normalizeMcpToolName ''a/b'' item = ''mcp__a__b''"
    by (simp_all add: normalizeMcpToolName_def mcp_name_def Let_def)
  note general = mcp_dot_shape [of src tool item] dot_shape [of src tool item]
    colon_shape [of src tool item] slash_shape [of src tool item] bare_shape [of bare item h]
  from idem canon shapes general show ?thesis by blast
qed

theorem normalizeMcpToolName_canonical_witness:
  "startsWith ''mcp__a__b'' ''mcp__''
   \<and> normalizeMcpToolName ''mcp__a__b'' JUndefined = ''mcp__a__b''
   \<and> normalizeMcpToolName (normalizeMcpToolName ''a.b'' JUndefined) JUndefined = ''mcp__a__b''
   \<and> normalizeMcpToolName ''mcp.github.search'' JUndefined = ''mcp__github__search''
   \<and> normalizeMcpToolName ''github.search'' JUndefined = ''mcp__github__search''
   \<and> normalizeMcpToolName ''github:search'' JUndefined = ''mcp__github__search''
   \<and> normalizeMcpToolName ''github/search'' JUndefined = ''mcp__github__search''
   \<and> normalizeMcpToolName ''list_issues'' (JObj [(''server'', JStr ''linear'')])
       = ''mcp__linear__list_issues''
   \<and> normalizeMcpToolName ''list_issues'' JUndefined = ''list_issues''"
  using
    normalizeMcpToolName_canonical
      [where item = JUndefined and name = "''mcp__a__b''" and src = "''github''"
         and tool = "''search''" and bare = "''list_issues''" and h = "''linear''"]
    normalizeMcpToolName_canonical
      [where item = JUndefined and name = "''a.b''" and src = "''github''"
         and tool = "''search''" and bare = "''list_issues''" and h = "''linear''"]
    normalizeMcpToolName_canonical
      [where item = "JObj [(''server'', JStr ''linear'')]" and name = "''a.b''"
         and src = "''github''" and tool = "''search''" and bare = "''list_issues''"
         and h = "''linear''"]
  by (simp add: js_defs)

section \<open>The credential file\<close>

text \<open>
  Claim C9. For every state of the file and every behaviour of \<open>JSON.parse\<close>,
  \<open>readCodexAuthFile\<close> returns and never raises: null when the file is missing, when
  it cannot be read and when its content does not parse, and the parsed value
  otherwise.
\<close>

theorem readCodexAuthFile_never_raises:
  "(\<exists>v. readCodexAuthFile jsonParse fs = Inr v)
   \<and> (fs = Missing \<longrightarrow> readCodexAuthFile jsonParse fs = Inr JNull)
   \<and> (fs = Unreadable \<longrightarrow> readCodexAuthFile jsonParse fs = Inr JNull)
   \<and> (\<forall>raw e. fs = Content raw \<and> jsonParse raw = Inl e
         \<longrightarrow> readCodexAuthFile jsonParse fs = Inr JNull)
   \<and> (\<forall>raw v. fs = Content raw \<and> jsonParse raw = Inr v
         \<longrightarrow> readCodexAuthFile jsonParse fs = Inr v)"
  by (cases fs)
     (auto simp: readCodexAuthFile_def readCodexAuthFile_try_def existsSync_def readFileSync_def
           split: sum.splits)

theorem readCodexAuthFile_never_raises_witness:
  "readCodexAuthFile (\<lambda>raw. if raw = ''{}'' then Inr (JObj []) else Inl SyntaxError) Missing
     = Inr JNull
   \<and> readCodexAuthFile (\<lambda>raw. if raw = ''{}'' then Inr (JObj []) else Inl SyntaxError) Unreadable
     = Inr JNull
   \<and> readCodexAuthFile (\<lambda>raw. if raw = ''{}'' then Inr (JObj []) else Inl SyntaxError)
        (Content ''{'')
     = Inr JNull
   \<and> readCodexAuthFile (\<lambda>raw. if raw = ''{}'' then Inr (JObj []) else Inl SyntaxError)
        (Content ''{}'')
     = Inr (JObj [])"
  using
    readCodexAuthFile_never_raises
      [of "\<lambda>raw. if raw = ''{}'' then Inr (JObj []) else Inl SyntaxError" Missing]
    readCodexAuthFile_never_raises
      [of "\<lambda>raw. if raw = ''{}'' then Inr (JObj []) else Inl SyntaxError" Unreadable]
    readCodexAuthFile_never_raises
      [of "\<lambda>raw. if raw = ''{}'' then Inr (JObj []) else Inl SyntaxError" "Content ''{''"]
    readCodexAuthFile_never_raises
      [of "\<lambda>raw. if raw = ''{}'' then Inr (JObj []) else Inl SyntaxError" "Content ''{}''"]
  by simp

section \<open>Title generation\<close>

lemma addBlocks_eq: "addBlocks title blocks = title @ concat (map blockText blocks)"
  by (induction title blocks rule: addBlocks.induct) simp_all

lemma addMessages_eq: "addMessages title messages = title @ concat (map messageText messages)"
  by (induction title messages rule: addMessages.induct) (simp_all add: addBlocks_eq)

lemma generateTitleWithCodex_eq:
  "generateTitleWithCodex codexRun prompt =
     (case codexOutput codexRun prompt of
        None \<Rightarrow> None
      | Some out \<Rightarrow> if trim out \<noteq> [] \<and> length (trim out) < 100 then Some (trim out) else None)"
  by (auto simp: generateTitleWithCodex_def generateTitleWithCodex_try_def codexOutput_def Let_def
           split: sum.splits jsval.splits)

lemma titleFromQuery_eq:
  "(case titleFromQuery query prompt of Inl e \<Rightarrow> None | Inr r \<Rightarrow> r) =
     (case queryOutput query prompt of
        None \<Rightarrow> None
      | Some out \<Rightarrow> if trim out \<noteq> [] \<and> length (trim out) < 100 then Some (trim out) else None)"
  by (auto simp: titleFromQuery_def queryOutput_def Let_def addMessages_eq split: sum.splits)

text \<open>
  Claim C10. Each of \<open>generateTitleWithCodex\<close>, \<open>generateSessionTitle\<close> and
  \<open>regenerateSessionTitle\<close> returns a title exactly when the model call succeeded and
  its output, trimmed, is not empty and has fewer than 100 characters; the title is
  then the trimmed output. In every other case, a trimmed output of 100 characters or
  more among them, the result is null.
\<close>

theorem title_length_bound:
  "(generateTitleWithCodex codexRun prompt = Some title
      \<longleftrightarrow> (\<exists>out. codexOutput codexRun prompt = Some out
                 \<and> title = trim out \<and> title \<noteq> [] \<and> length title < 100))
   \<and> (generateSessionTitle authType codexRun query userMessage = Some title
      \<longleftrightarrow> (\<exists>out. titleOutput authType codexRun query (sessionTitlePrompt userMessage) = Some out
                 \<and> title = trim out \<and> title \<noteq> [] \<and> length title < 100))
   \<and> (regenerateSessionTitle authType codexRun query recentUserMessages lastAssistantResponse
         = Some title
      \<longleftrightarrow> (\<exists>out. titleOutput authType codexRun query
                        (regeneratePrompt recentUserMessages lastAssistantResponse) = Some out
                 \<and> title = trim out \<and> title \<noteq> [] \<and> length title < 100))"
proof -
  have codex: "generateTitleWithCodex run p = Some title
      \<longleftrightarrow> (\<exists>out. codexOutput run p = Some out
                 \<and> title = trim out \<and> title \<noteq> [] \<and> length title < 100)" for run p
    by (auto simp: generateTitleWithCodex_eq split: option.splits)
  have query: "(case titleFromQuery q p of Inl e \<Rightarrow> None | Inr r \<Rightarrow> r) = Some title
      \<longleftrightarrow> (\<exists>out. queryOutput q p = Some out
                 \<and> title = trim out \<and> title \<noteq> [] \<and> length title < 100)" for q p
    by (auto simp: titleFromQuery_eq split: option.splits)
  show ?thesis
    using codex query
    by (simp add: generateSessionTitle_def regenerateSessionTitle_def titleOutput_def Let_def)
qed

theorem title_length_bound_witness:
  "generateTitleWithCodex (\<lambda>p. Inr (JObj [(''finalResponse'', JStr ''  Fix login bug '')])) ''p''
     = Some ''Fix login bug''
   \<and> generateSessionTitle ''api_key'' (\<lambda>p. Inl UpstreamFailure)
        (\<lambda>p. Inr [AssistantMessage [TextBlock ''Add dark'', OtherBlock, TextBlock '' mode'']])
        ''please add dark mode''
     = Some ''Add dark mode''
   \<and> generateTitleWithCodex
        (\<lambda>p. Inr (JObj [(''finalResponse'', JStr (replicate 100 CHR ''x''))])) ''p'' = None
   \<and> generateTitleWithCodex
        (\<lambda>p. Inr (JObj [(''finalResponse'', JStr (replicate 99 CHR ''x''))])) ''p''
     = Some (replicate 99 CHR ''x'')"
proof -
  have nsp: "\<not> is_space CHR ''x''"
    by (simp add: is_space_def)
  have tr: "trim (replicate n CHR ''x'') = replicate n CHR ''x''" for n
    by (cases n) (simp_all add: trim_def nsp replicate_append_same [symmetric] del: replicate_Suc)
  have out: "codexOutput (\<lambda>p. Inr (JObj [(''finalResponse'', JStr (replicate n CHR ''x''))])) ''p''
               = Some (replicate n CHR ''x'')" for n
    by (simp add: codexOutput_def js_defs)
  have a: "generateTitleWithCodex
             (\<lambda>p. Inr (JObj [(''finalResponse'', JStr ''  Fix login bug '')])) ''p''
           = Some ''Fix login bug''"
    by (simp add: generateTitleWithCodex_def generateTitleWithCodex_try_def js_defs trim_def
          is_space_def)
  have b: "generateSessionTitle ''api_key'' (\<lambda>p. Inl UpstreamFailure)
             (\<lambda>p. Inr [AssistantMessage [TextBlock ''Add dark'', OtherBlock, TextBlock '' mode'']])
             ''please add dark mode''
           = Some ''Add dark mode''"
    by (simp add: generateSessionTitle_def titleFromQuery_def trim_def is_space_def)
  have "generateTitleWithCodex
          (\<lambda>p. Inr (JObj [(''finalResponse'', JStr (replicate 100 CHR ''x''))])) ''p'' \<noteq> Some t"
    for t
    using title_length_bound
      [of "\<lambda>p. Inr (JObj [(''finalResponse'', JStr (replicate 100 CHR ''x''))])" "''p''" t]
    by (auto simp: out tr)
  then have c: "generateTitleWithCodex
                  (\<lambda>p. Inr (JObj [(''finalResponse'', JStr (replicate 100 CHR ''x''))])) ''p''
                = None"
    by (cases "generateTitleWithCodex
                 (\<lambda>p. Inr (JObj [(''finalResponse'', JStr (replicate 100 CHR ''x''))])) ''p''")
       auto
  have d: "generateTitleWithCodex
             (\<lambda>p. Inr (JObj [(''finalResponse'', JStr (replicate 99 CHR ''x''))])) ''p''
           = Some (replicate 99 CHR ''x'')"
    using title_length_bound
      [of "\<lambda>p. Inr (JObj [(''finalResponse'', JStr (replicate 99 CHR ''x''))])" "''p''"
          "replicate 99 CHR ''x''"]
    by (simp add: out tr)
  from a b c d show ?thesis by simp
qed

section \<open>Configuration changes\<close>

text \<open>
  Claim C5. The claim has all three mutations set the cached thread handle to null
  while no thread id is known. On an agent that is connected and has cached a thread
  without an id, \<open>setModel\<close> and \<open>setThinkingLevel\<close> do so, and
  \<open>setUltrathinkOverride\<close> keeps the handle.
\<close>

theorem setUltrathinkOverride_keeps_handle:
  "known_thread_id ((agentWithThread (streamingThread []))\<lparr>codex := Some connectedCodex\<rparr>) = None
   \<and> thread (setUltrathinkOverride True
               ((agentWithThread (streamingThread []))\<lparr>codex := Some connectedCodex\<rparr>))
       = Some (streamingThread [])
   \<and> thread (setModel ''gpt-5.2''
               ((agentWithThread (streamingThread []))\<lparr>codex := Some connectedCodex\<rparr>)) = None
   \<and> thread (setThinkingLevel High
               ((agentWithThread (streamingThread []))\<lparr>codex := Some connectedCodex\<rparr>)) = None"
  by (simp add: known_thread_id_def setUltrathinkOverride_def setModel_def setThinkingLevel_def
        agentWithThread_def streamingThread_def Let_def)

section \<open>The event loops\<close>

lemma deltaText_append: "deltaText (xs @ ys) = deltaText xs @ deltaText ys"
  by (induction xs rule: deltaText.induct) simp_all

lemma yield_simps [simp]:
  "yielded (yield ev t) = yielded t @ [ev]"
  "finalText (yield ev t) = finalText t"
  "agent (yield ev t) = agent t"
  "raised (yield ev t) = raised t"
  by (simp_all add: yield_def)

lemma raise_simps [simp]:
  "yielded (raise e t) = yielded t"
  "finalText (raise e t) = finalText t"
  "agent (raise e t) = agent t"
  "raised (raise e t) = Some e"
  by (simp_all add: raise_def)

lemma setParent_simps [simp]:
  "yielded (setParent c p t) = yielded t"
  "finalText (setParent c p t) = finalText t"
  "toolParents (agent (setParent c p t)) = (toolParents (agent t))(c \<mapsto> p)"
  "raised (setParent c p t) = raised t"
  by (simp_all add: setParent_def)

lemma notifySessionId_simps [simp]:
  "yielded (notifySessionId i t) = yielded t"
  "finalText (notifySessionId i t) = finalText t"
  "toolParents (agent (notifySessionId i t)) = toolParents (agent t)"
  "raised (notifySessionId i t) = raised t"
  by (simp_all add: notifySessionId_def)

lemma noteThreadStarted_simps [simp]:
  "yielded (noteThreadStarted ty e t) = yielded t"
  "finalText (noteThreadStarted ty e t) = finalText t"
  "toolParents (agent (noteThreadStarted ty e t)) = toolParents (agent t)"
  "raised (noteThreadStarted ty e t) = raised t"
  by (simp_all add: noteThreadStarted_def split: jsval.splits)

lemma emitToolStart_simps [simp]:
  "yielded (emitToolStart info event item parent t) =
     yielded t @ [ToolStart (toolName info) (toolUseId info) (coalesce [input info, JObj []])
                    (fst (extractIntentDisplayName (input info) event item))
                    (snd (extractIntentDisplayName (input info) event item)) parent]"
  "finalText (emitToolStart info event item parent t) = finalText t"
  "toolParents (agent (emitToolStart info event item parent t)) =
     (case parent of
        None \<Rightarrow> toolParents (agent t)
      | Some q \<Rightarrow> (toolParents (agent t))(toolUseId info \<mapsto> q))"
  "raised (emitToolStart info event item parent t) = raised t"
  by (simp_all add: emitToolStart_def Let_def split: option.splits)

lemma emitToolResult_simps [simp]:
  "yielded (emitToolResult r t) = yielded t @ [ToolResult (toolUseId r) (result r) (isError r)]"
  "finalText (emitToolResult r t) = finalText t"
  "agent (emitToolResult r t) = agent t"
  "raised (emitToolResult r t) = raised t"
  by (simp_all add: emitToolResult_def)

lemma emitCompletedResult_simps [simp]:
  "yielded (emitCompletedResult r parent t) =
     yielded t @ (case parent of
                    None \<Rightarrow> []
                  | Some q \<Rightarrow> if toolParents (agent t) (toolUseId r) = None
                              then [ParentUpdate (toolUseId r) q] else [])
               @ [ToolResult (toolUseId r) (result r) (isError r)]"
  "finalText (emitCompletedResult r parent t) = finalText t"
  "toolParents (agent (emitCompletedResult r parent t)) =
     (case parent of
        None \<Rightarrow> toolParents (agent t)
      | Some q \<Rightarrow> if toolParents (agent t) (toolUseId r) = None
                  then (toolParents (agent t))(toolUseId r \<mapsto> q) else toolParents (agent t))"
  "raised (emitCompletedResult r parent t) = raised t"
  by (auto simp: emitCompletedResult_def Let_def split: option.splits)

subsection \<open>Every loop body is one action\<close>

lemma action_if: "action t a \<Longrightarrow> action t b \<Longrightarrow> action t (if c then a else b)"
  by simp

lemma action_option:
  "action t a \<Longrightarrow> (\<And>x. action t (f x)) \<Longrightarrow> action t (case v of None \<Rightarrow> a | Some x \<Rightarrow> f x)"
  by (cases v) simp_all

lemma action_sum:
  "(\<And>x. action t (f x)) \<Longrightarrow> (\<And>y. action t (g y))
     \<Longrightarrow> action t (case v of Inl x \<Rightarrow> f x | Inr y \<Rightarrow> g y)"
  by (cases v) simp_all

lemmas action_intros = action_if action_option action_sum action.intros

lemma streamedEvent_action:
  "action (noteThreadStarted (case extractEventType e of Some s \<Rightarrow> s | None \<Rightarrow> []) e t)
     (streamedEvent e t)"
  unfolding streamedEvent_def Let_def
  by (intro action_intros)

lemma asyncEvent_action: "action t (asyncEvent e t)"
  unfolding asyncEvent_def Let_def
  by (intro action_intros)

lemma syncEvent_action: "action t (syncEvent e t)"
  unfolding syncEvent_def
  by (intro action_intros)

subsection \<open>What an action preserves\<close>

lemma action_tracked: "action t t' \<Longrightarrow> tracked t \<Longrightarrow> tracked t'"
  by (induction rule: action.induct) (auto simp: tracked_def deltaText_append split: option.splits)

lemma action_count:
  "action t t' \<Longrightarrow>
     length (filter isTextComplete (yielded t')) \<le> Suc (length (filter isTextComplete (yielded t)))"
  by (induction rule: action.induct) (auto split: option.splits)

lemma parentKept_start:
  "toolParents (agent t) c = Some p \<Longrightarrow> parentKept (yielded t) c p t"
  by (simp add: parentKept_def)

lemma parentKept_step:
  assumes "parentKept base c p t"
      and "yielded t' = yielded t @ new"
      and "\<forall>q. ParentUpdate c q \<notin> set new"
      and "toolParents (agent t') c = toolParents (agent t) c
           \<or> (\<exists>n inp i d q. ToolStart n c inp i d (Some q) \<in> set new
                              \<and> toolParents (agent t') c = Some q)"
  shows "parentKept base c p t'"
proof -
  from assms(1) obtain later q where
    y: "yielded t = base @ later" and
    m: "toolParents (agent t) c = Some q" and
    o: "q = p \<or> (\<exists>n inp i d. ToolStart n c inp i d (Some q) \<in> set later)" and
    u: "\<forall>q. ParentUpdate c q \<notin> set later"
    unfolding parentKept_def by blast
  have y': "yielded t' = base @ (later @ new)"
    using y assms(2) by simp
  have u': "\<forall>q. ParentUpdate c q \<notin> set (later @ new)"
    using u assms(3) by simp
  from assms(4) have "\<exists>q'. toolParents (agent t') c = Some q'
        \<and> (q' = p \<or> (\<exists>n inp i d. ToolStart n c inp i d (Some q') \<in> set (later @ new)))"
  proof
    assume "toolParents (agent t') c = toolParents (agent t) c"
    with m o show ?thesis by auto
  next
    assume "\<exists>n inp i d q. ToolStart n c inp i d (Some q) \<in> set new
                            \<and> toolParents (agent t') c = Some q"
    then show ?thesis by auto
  qed
  with y' u' show ?thesis unfolding parentKept_def by blast
qed

lemma parentKept_mapped:
  "parentKept base c p t \<Longrightarrow> toolParents (agent t) c \<noteq> None"
  by (auto simp: parentKept_def)

lemma action_parentKept:
  assumes "action t t'" and "parentKept base c p t"
  shows "parentKept base c p t'"
  using assms
proof (induction rule: action.induct)
  case (keep t)
  then show ?case .
next
  case (delta t d)
  then show ?case by (rule parentKept_step [where new = "[TextDelta d]"]) simp_all
next
  case (final t x)
  then show ?case by (rule parentKept_step [where new = "[TextComplete x]"]) simp_all
next
  case (start t info event item parent)
  let ?ev = "ToolStart (toolName info) (toolUseId info) (coalesce [input info, JObj []])
               (fst (extractIntentDisplayName (input info) event item))
               (snd (extractIntentDisplayName (input info) event item)) parent"
  show ?case
  proof (rule parentKept_step [OF start, where new = "[?ev]"])
    show "toolParents (agent (emitToolStart info event item parent t)) c = toolParents (agent t) c
          \<or> (\<exists>n inp i d q. ToolStart n c inp i d (Some q) \<in> set [?ev]
                 \<and> toolParents (agent (emitToolStart info event item parent t)) c = Some q)"
      by (cases parent; cases "toolUseId info = c") simp_all
  qed simp_all
next
  case (res t r)
  then show ?case
    by (rule parentKept_step [where new = "[ToolResult (toolUseId r) (result r) (isError r)]"])
       simp_all
next
  case (completed t r parent)
  from completed have mapped: "toolParents (agent t) c \<noteq> None"
    by (rule parentKept_mapped)
  show ?case
  proof (rule parentKept_step [OF completed])
    show "yielded (emitCompletedResult r parent t) =
            yielded t @ ((case parent of
                            None \<Rightarrow> []
                          | Some q \<Rightarrow> if toolParents (agent t) (toolUseId r) = None
                                      then [ParentUpdate (toolUseId r) q] else [])
                         @ [ToolResult (toolUseId r) (result r) (isError r)])"
      by simp
    show "\<forall>q. ParentUpdate c q
            \<notin> set ((case parent of
                       None \<Rightarrow> []
                     | Some q \<Rightarrow> if toolParents (agent t) (toolUseId r) = None
                                 then [ParentUpdate (toolUseId r) q] else [])
                    @ [ToolResult (toolUseId r) (result r) (isError r)])"
      using mapped by (auto split: option.splits)
    show "toolParents (agent (emitCompletedResult r parent t)) c = toolParents (agent t) c
          \<or> (\<exists>n inp i d q. ToolStart n c inp i d (Some q)
                 \<in> set ((case parent of
                            None \<Rightarrow> []
                          | Some q \<Rightarrow> if toolParents (agent t) (toolUseId r) = None
                                      then [ParentUpdate (toolUseId r) q] else [])
                         @ [ToolResult (toolUseId r) (result r) (isError r)])
                 \<and> toolParents (agent (emitCompletedResult r parent t)) c = Some q)"
      using mapped by (auto split: option.splits)
  qed
next
  case (fail t e)
  then show ?case by (rule parentKept_step [where new = "[]"]) simp_all
qed

lemma streamedEvent_tracked: "tracked t \<Longrightarrow> tracked (streamedEvent e t)"
  using action_tracked [OF streamedEvent_action, of e t] by (simp add: tracked_def)

lemma streamedEvent_count:
  "length (filter isTextComplete (yielded (streamedEvent e t)))
     \<le> Suc (length (filter isTextComplete (yielded t)))"
  using action_count [OF streamedEvent_action, of e t] by simp

lemma streamedEvent_parentKept:
  "parentKept base c p t \<Longrightarrow> parentKept base c p (streamedEvent e t)"
  using action_parentKept [OF streamedEvent_action, of base c p e t] by (simp add: parentKept_def)

subsection \<open>The loops\<close>

lemma forEach_invariant:
  assumes "\<And>e t. P t \<Longrightarrow> P (body e t)" and "P t"
  shows "P (forEach body es t)"
  using assms(2)
  by (induction es arbitrary: t) (simp_all add: Let_def assms(1))

lemma forEach_parentKept:
  assumes "body = streamedEvent \<or> body = asyncEvent \<or> body = syncEvent"
      and "parentKept base c p t"
  shows "parentKept base c p (forEach body es t)"
proof -
  have "parentKept base c p (body e u)" if "parentKept base c p u" for e u
    using assms(1) that
    by (auto intro: streamedEvent_parentKept action_parentKept [OF asyncEvent_action]
                    action_parentKept [OF syncEvent_action])
  then show ?thesis
    using assms(2) by (rule forEach_invariant [where P = "parentKept base c p" and body = body])
qed

lemma forEach_count:
  assumes "\<And>e t. length (filter isTextComplete (yielded (body e t)))
                   \<le> Suc (length (filter isTextComplete (yielded t)))"
  shows "length (filter isTextComplete (yielded (forEach body es t)))
           \<le> length (filter isTextComplete (yielded t)) + length es"
proof (induction es arbitrary: t)
  case Nil
  show ?case by simp
next
  case (Cons e es)
  have step: "length (filter isTextComplete (yielded (body e t)))
                \<le> Suc (length (filter isTextComplete (yielded t)))"
    by (rule assms)
  show ?case
  proof (cases "raised (body e t) = None")
    case True
    with Cons [of "body e t"] step show ?thesis by (simp add: Let_def)
  next
    case False
    with step show ?thesis by (auto simp: Let_def)
  qed
qed

lemma runNonStreamed_count:
  "length (filter isTextComplete (yielded (runNonStreamed rr t)))
     \<le> length (filter isTextComplete (yielded t))
        + length (case run_events rr of AsyncEvents es \<Rightarrow> es | SyncEvents es \<Rightarrow> es | _ \<Rightarrow> [])"
proof (cases "run_events rr")
  case (AsyncEvents es)
  with forEach_count [of asyncEvent es t, OF action_count [OF asyncEvent_action]]
  show ?thesis by (simp add: runNonStreamed_def Let_def split: option.splits)
next
  case (SyncEvents es)
  with forEach_count [of syncEvent es t, OF action_count [OF syncEvent_action]]
  show ?thesis by (simp add: runNonStreamed_def Let_def split: option.splits)
qed (simp_all add: runNonStreamed_def Let_def split: option.splits)

lemma runEvents_count:
  "length (filter isTextComplete (yielded (runEvents th m t)))
     \<le> length (filter isTextComplete (yielded t)) + length (upstreamEvents th m)"
proof (cases "runStreamed th")
  case None
  with runNonStreamed_count [of "run th m" t] show ?thesis
    by (simp add: runEvents_def upstreamEvents_def)
next
  case (Some stream)
  with forEach_count [of streamedEvent "stream m" t, OF streamedEvent_count] show ?thesis
    by (simp add: runEvents_def upstreamEvents_def)
qed

lemma runNonStreamed_parentKept:
  assumes "parentKept base c p t"
  shows "parentKept base c p (runNonStreamed rr t)"
proof -
  have a: "parentKept base c p (forEach asyncEvent es t)" for es
    by (rule forEach_parentKept [OF _ assms]) simp
  have s: "parentKept base c p (forEach syncEvent es t)" for es
    by (rule forEach_parentKept [OF _ assms]) simp
  have k: "parentKept base c p (u\<lparr>finalText := x\<rparr>) = parentKept base c p u" for u x
    by (simp add: parentKept_def)
  have r: "parentKept base c p (raise e u) = parentKept base c p u" for u e
    by (simp add: parentKept_def)
  show ?thesis
    using assms a s
    by (cases "run_events rr") (simp_all add: runNonStreamed_def Let_def k r split: option.splits)
qed

lemma runEvents_parentKept:
  assumes "parentKept base c p t"
  shows "parentKept base c p (runEvents th m t)"
proof (cases "runStreamed th")
  case None
  with runNonStreamed_parentKept [OF assms] show ?thesis by (simp add: runEvents_def)
next
  case (Some stream)
  have "parentKept base c p (forEach streamedEvent (stream m) t)"
    by (rule forEach_parentKept [OF _ assms]) simp
  with Some show ?thesis by (simp add: runEvents_def)
qed

lemma runNonStreamed_text:
  assumes "tracked t" and "raised (runNonStreamed rr t) = None"
      and "filter isTextComplete (yielded (runNonStreamed rr t)) = []"
  shows "finalText (runNonStreamed rr t) =
           (if deltaText (yielded (runNonStreamed rr t)) = []
            then (case extractTextComplete (run_value rr) of Some r \<Rightarrow> r | None \<Rightarrow> [])
            else deltaText (yielded (runNonStreamed rr t)))"
proof -
  define u where "u = (case run_events rr of
                         NoEvents \<Rightarrow> t
                       | AsyncEvents events \<Rightarrow> forEach asyncEvent events t
                       | SyncEvents events \<Rightarrow> forEach syncEvent events t
                       | NotIterable \<Rightarrow> raise TypeError t)"
  have a: "tracked (forEach asyncEvent es t)" for es
    by (rule forEach_invariant [where P = tracked])
       (auto intro: action_tracked [OF asyncEvent_action] assms(1))
  have s: "tracked (forEach syncEvent es t)" for es
    by (rule forEach_invariant [where P = tracked])
       (auto intro: action_tracked [OF syncEvent_action] assms(1))
  have r: "tracked (raise TypeError t)"
    using assms(1) by (simp add: tracked_def)
  have tu: "tracked u"
    unfolding u_def using assms(1) a s r by (cases "run_events rr") simp_all
  have nn: "\<not> nullish (run_value rr)"
    using assms(2) by (auto simp: runNonStreamed_def Let_def)
  have ru: "raised u = None"
    using assms(2) nn unfolding u_def
    by (auto simp: runNonStreamed_def Let_def split: if_splits)
  have eq: "runNonStreamed rr t =
              (case extractTextComplete (run_value rr) of
                 Some r \<Rightarrow> if length (finalText u) = 0 then u\<lparr>finalText := r\<rparr> else u
               | None \<Rightarrow> u)"
    using nn ru unfolding u_def by (simp add: runNonStreamed_def Let_def)
  have y: "yielded (runNonStreamed rr t) = yielded u"
    by (simp add: eq split: option.splits)
  have fu: "finalText u = deltaText (yielded u)"
    using tu assms(3) by (simp add: tracked_def y)
  show ?thesis
    unfolding y using fu by (simp add: eq split: option.splits)
qed

lemma runEvents_text:
  assumes "tracked t" and "raised (runEvents th m t) = None"
      and "filter isTextComplete (yielded (runEvents th m t)) = []"
  shows "finalText (runEvents th m t) =
           (if deltaText (yielded (runEvents th m t)) = [] then returnedText th m
            else deltaText (yielded (runEvents th m t)))"
proof (cases "runStreamed th")
  case None
  with runNonStreamed_text [of t "run th m"] assms show ?thesis
    by (simp add: runEvents_def returnedText_def)
next
  case (Some stream)
  have "tracked (forEach streamedEvent (stream m) t)"
    by (rule forEach_invariant [where P = tracked])
       (auto intro: streamedEvent_tracked assms(1))
  with Some assms(3) show ?thesis
    by (simp add: runEvents_def returnedText_def tracked_def)
qed

lemma startTurn_simps:
  "filter isTextComplete (yielded (startTurn att a)) = []"
  "finalText (startTurn att a) = []"
  "deltaText (yielded (startTurn att a)) = []"
  "raised (startTurn att a) = None"
  "agent (startTurn att a) = a"
  by (simp_all add: startTurn_def Let_def split: option.splits list.splits)

lemma startTurn_no_parent_events:
  "ParentUpdate c q \<notin> set (yielded (startTurn att a))"
  "ToolStart n c inp i d pq \<notin> set (yielded (startTurn att a))"
  by (simp_all add: startTurn_def Let_def split: option.splits list.splits)

lemma ensureThread_toolParents:
  "toolParents (snd (ensureThread sdk a)) = toolParents a"
  by (simp add: ensureThread_def ensureCodex_def Let_def split: option.splits sum.splits prod.splits)

section \<open>The chat turn\<close>

text \<open>
  Claim C2, as amended. Every upstream event yields at most one \<open>text_complete\<close>, so
  the sequence of a turn holds at most one more \<open>text_complete\<close> than there are
  upstream events (it can hold several). When the loop raised nothing and yielded no
  \<open>text_complete\<close>, and the accumulated delta text or, failing that, the text returned
  directly by the run is not empty, the turn ends normally with exactly that text in a
  \<open>text_complete\<close> followed by \<open>complete\<close>, right after the events of the loop.
\<close>

theorem chat_text_complete:
  assumes "ensureThread sdk a = (Inr th, a')"
  shows "length (filter isTextComplete (yielded (chat sdk message attachments a)))
           \<le> Suc (length (upstreamEvents th message))
       \<and> (let l = runEvents th message ((startTurn attachments a)\<lparr>agent := a'\<rparr>);
              final = (if deltaText (yielded l) = [] then returnedText th message
                       else deltaText (yielded l))
          in raised l = None \<and> filter isTextComplete (yielded l) = [] \<and> final \<noteq> []
             \<longrightarrow> yielded (chat sdk message attachments a) = yielded l @ [TextComplete final, Complete]
               \<and> raised (chat sdk message attachments a) = None)"
proof -
  define t where "t = (startTurn attachments a)\<lparr>agent := a'\<rparr>"
  define l where "l = runEvents th message t"
  have c: "chat sdk message attachments a = (if raised l \<noteq> None then l else finishTurn l)"
    using assms by (simp add: chat_def Let_def l_def t_def startTurn_simps)
  have t0: "filter isTextComplete (yielded t) = []" "tracked t"
    by (simp_all add: t_def tracked_def startTurn_simps)
  have bound: "length (filter isTextComplete (yielded l)) \<le> length (upstreamEvents th message)"
    using runEvents_count [of th message t] t0 by (simp add: l_def)
  have fin: "length (filter isTextComplete (yielded (finishTurn l)))
               \<le> Suc (length (filter isTextComplete (yielded l)))"
    by (simp add: finishTurn_def Let_def)
  have 1: "length (filter isTextComplete (yielded (chat sdk message attachments a)))
             \<le> Suc (length (upstreamEvents th message))"
    using bound fin by (simp add: c)
  have 2: "yielded (chat sdk message attachments a) = yielded l @ [TextComplete final, Complete]
           \<and> raised (chat sdk message attachments a) = None"
    if "raised l = None" "filter isTextComplete (yielded l) = []" "final \<noteq> []"
       "final = (if deltaText (yielded l) = [] then returnedText th message
                 else deltaText (yielded l))"
    for final
  proof -
    have "finalText l = final"
      using runEvents_text [of t th message] t0 that by (simp add: l_def)
    with that show ?thesis by (simp add: c finishTurn_def Let_def)
  qed
  show ?thesis
    using 1 2 unfolding Let_def l_def t_def by blast
qed

theorem chat_text_complete_witness:
  "yielded (chat noSdk ''hi'' (None :: unit list option)
      (agentWithThread (streamingThread
         [completedItem ''m1'' ''agent_message'' ''he'',
          completedItem ''m2'' ''agent_message'' ''llo''])))
     = [TextDelta ''he'', TextDelta ''llo'', TextComplete ''hello'', Complete]
   \<and> raised (chat noSdk ''hi'' (None :: unit list option)
      (agentWithThread (streamingThread
         [completedItem ''m1'' ''agent_message'' ''he'',
          completedItem ''m2'' ''agent_message'' ''llo''])))
     = None"
proof -
  let ?th = "streamingThread [completedItem ''m1'' ''agent_message'' ''he'',
                              completedItem ''m2'' ''agent_message'' ''llo'']"
  let ?a = "agentWithThread ?th"
  have e: "ensureThread noSdk ?a = (Inr ?th, ?a)"
    by (simp add: ensureThread_def agentWithThread_def)
  have l: "runEvents ?th ''hi'' ((startTurn (None :: unit list option) ?a)\<lparr>agent := ?a\<rparr>) =
             \<lparr>agent = ?a, finalText = ''hello'',
              yielded = [TextDelta ''he'', TextDelta ''llo''], raised = None\<rparr>"
    by (simp add: chat_defs extract_defs js_defs)
  show ?thesis
    using chat_text_complete [OF e, of "''hi''" "None :: unit list option"]
    by (simp add: l Let_def)
qed

theorem chat_two_text_complete:
  "yielded (chat noSdk ''hi'' (None :: unit list option)
      (agentWithThread (streamingThread
         [completedItem ''r1'' ''reasoning'' ''a'', completedItem ''r2'' ''reasoning'' ''b''])))
     = [TextComplete ''a'', TextComplete ''b'', TextComplete ''b'', Complete]
   \<and> \<not> length (filter isTextComplete (yielded (chat noSdk ''hi'' (None :: unit list option)
          (agentWithThread (streamingThread
             [completedItem ''r1'' ''reasoning'' ''a'', completedItem ''r2'' ''reasoning'' ''b'']))))) \<le> 1"
  by (simp add: chat_defs extract_defs js_defs)

text \<open>
  Claim C3. The claim has a turn without upstream events and without returned text
  yield exactly \<open>complete\<close>. On a thread that streams no event, and on a thread
  without \<open>runStreamed\<close> whose run returns neither events nor text, \<open>chat\<close> yields
  nothing and raises a ReferenceError, whatever the connection and the message:
  \<open>finalText\<close> is empty, so the condition after the loop reads \<open>resultText\<close>, which is
  not in scope there.
\<close>

theorem chat_empty_stream_raises:
  "yielded (chat sdk message (None :: unit list option) (agentWithThread (streamingThread []))) = []
   \<and> raised (chat sdk message (None :: unit list option) (agentWithThread (streamingThread [])))
       = Some ReferenceError
   \<and> yielded (chat sdk message (None :: unit list option)
        (agentWithThread (plainThread \<lparr>run_value = JObj [], run_events = NoEvents\<rparr>))) = []
   \<and> raised (chat sdk message (None :: unit list option)
        (agentWithThread (plainThread \<lparr>run_value = JObj [], run_events = NoEvents\<rparr>)))
       = Some ReferenceError"
  by (simp add: chat_defs extract_defs js_defs)

text \<open>
  Claim C4. The claim has the loop over a sync-iterable event collection apply the
  rules of the loop over an async-iterable one. For a run that returns the text
  \<open>done\<close> and one tool-call event, \<open>chat\<close> yields the \<open>tool_start\<close> when the
  collection is async-iterable and does not yield it when the collection is
  sync-iterable: that loop reads text deltas only.
\<close>

theorem chat_sync_events_drop_tools:
  "yielded (chat noSdk ''hi'' (None :: unit list option) (agentWithThread (plainThread
      \<lparr>run_value = JObj [(''text'', JStr ''done'')],
       run_events = AsyncEvents [toolCallEvent ''t1'' ''p'']\<rparr>)))
     = [ToolStart (JStr ''read'') (JStr ''t1'') (JObj []) None None (Some (JStr ''p'')),
        TextComplete ''done'', Complete]
   \<and> yielded (chat noSdk ''hi'' (None :: unit list option) (agentWithThread (plainThread
      \<lparr>run_value = JObj [(''text'', JStr ''done'')],
       run_events = SyncEvents [toolCallEvent ''t1'' ''p'']\<rparr>)))
     = [TextComplete ''done'', Complete]"
  by (simp add: chat_defs extract_defs js_defs)

text \<open>
  Claim C6, as amended. Once \<open>toolParents\<close> maps a child id to a parent id, no later
  event removes the entry, and the tool-result rule never touches it: no later
  \<open>parent_update\<close> is for that child. After the later events the entry is the same, or
  it is the parent id carried by a later \<open>tool_start\<close> event for that child, which
  replaced it. This holds from any point of any of the three loops of \<open>chat\<close>, and
  for a whole turn of \<open>chat\<close> from an entry that exists when the turn starts.
\<close>

theorem chat_toolParents:
  "(toolParents (agent t) c = Some p \<and> body \<in> {streamedEvent, asyncEvent, syncEvent}
      \<longrightarrow> (\<exists>later. yielded (forEach body events t) = yielded t @ later
             \<and> (\<exists>q. toolParents (agent (forEach body events t)) c = Some q
                    \<and> (q = p \<or> (\<exists>n inp i d. ToolStart n c inp i d (Some q) \<in> set later)))
             \<and> (\<forall>q. ParentUpdate c q \<notin> set later)))
   \<and> (toolParents a c = Some p
      \<longrightarrow> (\<exists>q. toolParents (agent (chat sdk message attachments a)) c = Some q
                \<and> (q = p \<or> (\<exists>n inp i d. ToolStart n c inp i d (Some q)
                                           \<in> set (yielded (chat sdk message attachments a)))))
          \<and> (\<forall>q. ParentUpdate c q \<notin> set (yielded (chat sdk message attachments a))))"
proof (rule conjI; rule impI)
  assume h: "toolParents (agent t) c = Some p \<and> body \<in> {streamedEvent, asyncEvent, syncEvent}"
  then have b: "body = streamedEvent \<or> body = asyncEvent \<or> body = syncEvent"
    by simp
  from h have "parentKept (yielded t) c p t"
    by (simp add: parentKept_start)
  then have "parentKept (yielded t) c p (forEach body events t)"
    by (rule forEach_parentKept [OF b])
  then show "\<exists>later. yielded (forEach body events t) = yielded t @ later
             \<and> (\<exists>q. toolParents (agent (forEach body events t)) c = Some q
                    \<and> (q = p \<or> (\<exists>n inp i d. ToolStart n c inp i d (Some q) \<in> set later)))
             \<and> (\<forall>q. ParentUpdate c q \<notin> set later)"
    by (simp add: parentKept_def)
next
  assume h: "toolParents a c = Some p"
  obtain r a' where e: "ensureThread sdk a = (r, a')"
    by (cases "ensureThread sdk a")
  have tp: "toolParents a' = toolParents a"
    using ensureThread_toolParents [of sdk a] e by simp
  define u where "u = (startTurn attachments a)\<lparr>agent := a'\<rparr>"
  have k0: "parentKept [] c p u"
    using h tp by (simp add: parentKept_def u_def startTurn_no_parent_events)
  have fin: "parentKept [] c p (finishTurn v)" if "parentKept [] c p v" for v
    using that by (simp add: parentKept_def finishTurn_def Let_def)
  have "parentKept [] c p (chat sdk message attachments a)"
  proof (cases r)
    case (Inl err)
    with e k0 show ?thesis
      by (simp add: chat_def Let_def startTurn_simps u_def parentKept_def)
  next
    case (Inr th)
    have "parentKept [] c p (runEvents th message u)"
      by (rule runEvents_parentKept [OF k0])
    with e Inr fin [of "runEvents th message u"] show ?thesis
      by (simp add: chat_def Let_def startTurn_simps u_def)
  qed
  then show "(\<exists>q. toolParents (agent (chat sdk message attachments a)) c = Some q
                \<and> (q = p \<or> (\<exists>n inp i d. ToolStart n c inp i d (Some q)
                                           \<in> set (yielded (chat sdk message attachments a)))))
          \<and> (\<forall>q. ParentUpdate c q \<notin> set (yielded (chat sdk message attachments a)))"
    by (simp add: parentKept_def)
qed

theorem chat_toolParents_witness:
  "toolParents ((agentWithThread (streamingThread
                   [toolCallEvent ''c'' ''p2'', completedItem ''m1'' ''agent_message'' ''ok'']))
                  \<lparr>toolParents := [JStr ''c'' \<mapsto> JStr ''p1'']\<rparr>) (JStr ''c'') = Some (JStr ''p1'')
   \<and> streamedEvent \<in> {streamedEvent, asyncEvent, syncEvent}
   \<and> toolParents (agent (chat noSdk ''hi'' (None :: unit list option)
        ((agentWithThread (streamingThread
            [toolCallEvent ''c'' ''p2'', completedItem ''m1'' ''agent_message'' ''ok'']))
           \<lparr>toolParents := [JStr ''c'' \<mapsto> JStr ''p1'']\<rparr>))) (JStr ''c'') = Some (JStr ''p2'')
   \<and> yielded (chat noSdk ''hi'' (None :: unit list option)
        ((agentWithThread (streamingThread
            [toolCallEvent ''c'' ''p2'', completedItem ''m1'' ''agent_message'' ''ok'']))
           \<lparr>toolParents := [JStr ''c'' \<mapsto> JStr ''p1'']\<rparr>))
       = [ToolStart (JStr ''read'') (JStr ''c'') (JObj []) None None (Some (JStr ''p2'')),
          TextDelta ''ok'', TextComplete ''ok'', Complete]
   \<and> toolParents (agent (forEach streamedEvent [toolCallEvent ''c'' ''p2'']
        (startTurn (None :: unit list option)
           ((agentWithThread (streamingThread []))
              \<lparr>toolParents := [JStr ''c'' \<mapsto> JStr ''p1'']\<rparr>)))) (JStr ''c'') = Some (JStr ''p2'')
   \<and> yielded (forEach streamedEvent [toolCallEvent ''c'' ''p2'']
        (startTurn (None :: unit list option)
           ((agentWithThread (streamingThread []))
              \<lparr>toolParents := [JStr ''c'' \<mapsto> JStr ''p1'']\<rparr>)))
       = [ToolStart (JStr ''read'') (JStr ''c'') (JObj []) None None (Some (JStr ''p2''))]"
proof -
  let ?a = "(agentWithThread (streamingThread
               [toolCallEvent ''c'' ''p2'', completedItem ''m1'' ''agent_message'' ''ok'']))
              \<lparr>toolParents := [JStr ''c'' \<mapsto> JStr ''p1'']\<rparr>"
  let ?b = "(agentWithThread (streamingThread []))\<lparr>toolParents := [JStr ''c'' \<mapsto> JStr ''p1'']\<rparr>"
  let ?t = "startTurn (None :: unit list option) ?b"
  have h: "toolParents ?a (JStr ''c'') = Some (JStr ''p1'')"
    by (simp add: agentWithThread_def)
  have g: "toolParents (agent ?t) (JStr ''c'') = Some (JStr ''p1'')"
    by (simp add: agentWithThread_def startTurn_simps)
  have s: "streamedEvent \<in> {streamedEvent, asyncEvent, syncEvent}"
    by simp
  have y: "yielded (chat noSdk ''hi'' (None :: unit list option) ?a)
             = [ToolStart (JStr ''read'') (JStr ''c'') (JObj []) None None (Some (JStr ''p2'')),
                TextDelta ''ok'', TextComplete ''ok'', Complete]"
    by (simp add: chat_defs extract_defs js_defs)
  have m: "toolParents (agent (chat noSdk ''hi'' (None :: unit list option) ?a)) (JStr ''c'')
             = Some (JStr ''p2'')"
    by (simp add: chat_defs extract_defs js_defs)
  have ly: "yielded (forEach streamedEvent [toolCallEvent ''c'' ''p2''] ?t)
              = [ToolStart (JStr ''read'') (JStr ''c'') (JObj []) None None (Some (JStr ''p2''))]"
    by (simp add: chat_defs extract_defs js_defs)
  have lm: "toolParents (agent (forEach streamedEvent [toolCallEvent ''c'' ''p2''] ?t)) (JStr ''c'')
              = Some (JStr ''p2'')"
    by (simp add: chat_defs extract_defs js_defs)
  show ?thesis
    using h s y m ly lm g
      chat_toolParents [of ?t "JStr ''c''" "JStr ''p1''" streamedEvent
                           "[toolCallEvent ''c'' ''p2'']" ?a noSdk "''hi''"
                           "None :: unit list option"]
    by simp
qed

theorem chat_toolParents_overwritten:
  "toolParents (agent (chat noSdk ''hi'' (None :: unit list option)
      (agentWithThread (streamingThread
         [toolCallEvent ''c'' ''p1'', completedItem ''m1'' ''agent_message'' ''ok'']))))
     (JStr ''c'') = Some (JStr ''p1'')
   \<and> toolParents (agent (chat noSdk ''hi'' (None :: unit list option)
      (agentWithThread (streamingThread
         [toolCallEvent ''c'' ''p1'', toolCallEvent ''c'' ''p2'',
          completedItem ''m1'' ''agent_message'' ''ok'']))))
     (JStr ''c'') = Some (JStr ''p2'')"
  by (simp add: chat_defs extract_defs js_defs)

section \<open>Properties of the thinking-level resolver\<close>

text \<open>
  Claim C8. For each of the seven thinking levels and every model id,
  \<open>normalizeThinkingLevelForCodex\<close> returns one of low, medium, high, xhigh. Without a
  mini model id the four native values pass through, off becomes low, think becomes
  medium and max becomes high; with a mini model id the same table applies with low
  collapsed to medium and xhigh to high, so that low and xhigh never occur.
\<close>

theorem normalizeThinkingLevelForCodex_table:
  "normalizeThinkingLevelForCodex level modelId \<in> {Low, Medium, High, XHigh}
   \<and> (\<not> isMini modelId \<longrightarrow>
        normalizeThinkingLevelForCodex Low modelId = Low
      \<and> normalizeThinkingLevelForCodex Medium modelId = Medium
      \<and> normalizeThinkingLevelForCodex High modelId = High
      \<and> normalizeThinkingLevelForCodex XHigh modelId = XHigh
      \<and> normalizeThinkingLevelForCodex Off modelId = Low
      \<and> normalizeThinkingLevelForCodex Think modelId = Medium
      \<and> normalizeThinkingLevelForCodex Max modelId = High)
   \<and> (isMini modelId \<longrightarrow>
        normalizeThinkingLevelForCodex level modelId \<noteq> Low
      \<and> normalizeThinkingLevelForCodex level modelId \<noteq> XHigh
      \<and> normalizeThinkingLevelForCodex Low modelId = Medium
      \<and> normalizeThinkingLevelForCodex Medium modelId = Medium
      \<and> normalizeThinkingLevelForCodex High modelId = High
      \<and> normalizeThinkingLevelForCodex XHigh modelId = High
      \<and> normalizeThinkingLevelForCodex Off modelId = Medium
      \<and> normalizeThinkingLevelForCodex Think modelId = Medium
      \<and> normalizeThinkingLevelForCodex Max modelId = High)"
  by (cases level) (simp_all add: normalizeThinkingLevelForCodex_def)

theorem normalizeThinkingLevelForCodex_table_witness:
  "isMini (Some ''gpt-5.1-codex-mini'') \<and> \<not> isMini (Some ''gpt-5.2-codex'') \<and> \<not> isMini None
   \<and> normalizeThinkingLevelForCodex Off (Some ''gpt-5.1-codex-mini'') = Medium
   \<and> normalizeThinkingLevelForCodex XHigh (Some ''gpt-5.1-codex-mini'') = High
   \<and> normalizeThinkingLevelForCodex Off (Some ''gpt-5.2-codex'') = Low
   \<and> normalizeThinkingLevelForCodex Max None = High"
proof -
  have mini: "isMini (Some ''gpt-5.1-codex-mini'')" by (simp add: isMini_def)
  have full: "\<not> isMini (Some ''gpt-5.2-codex'')" by (simp add: isMini_def)
  have none: "\<not> isMini None" by (simp add: isMini_def)
  show ?thesis
    using mini full none
      normalizeThinkingLevelForCodex_table [of Off "Some ''gpt-5.1-codex-mini''"]
      normalizeThinkingLevelForCodex_table [of Off "Some ''gpt-5.2-codex''"]
      normalizeThinkingLevelForCodex_table [of Off None]
    by simp
qed

end
